theory Spec2Isabelle
  imports Complex_Main "HOL-Library.Sublist" "HOL-Library.Log_Nat"
begin

section \<open>Values and exceptions\<close>

text \<open>
  The content record and the design configuration are what \<^verbatim>\<open>json.load\<close> returns:
  \<^verbatim>\<open>None\<close>, booleans, numbers, strings, lists and dictionaries with string keys.
  A dictionary is an association list read with \<open>map_of\<close>: the first binding of a key
  is the dictionary's entry for it. A float is kept as the rational it denotes; no
  arithmetic is done on it below.
\<close>

datatype json =
    JNull
  | JBool bool
  | JInt int
  | JFloat rat
  | JStr string
  | JList "json list"
  | JDict "(string \<times> json) list"

text \<open>The exceptions that the modelled code can raise, with the message they carry where
  one is used.\<close>

datatype exn =
    KeyError
  | TypeError
  | IndexError
  | AttributeError
  | ValueError
  | ZeroDivisionError
  | OSError
  | ParseError
  | TemplateError string

section \<open>Template configuration (\<^verbatim>\<open>template_config.py\<close>)\<close>

datatype ContentType = TEXT | BULLET_LIST | TABLE | IMAGE | TITLE | SUBTITLE

record PlaceholderMapping =
  placeholder_index :: int
  content_type :: ContentType
  json_path :: string
  jinja_enabled :: bool
  formatting_options :: "(string \<times> json) list option"

record SlideConfig =
  slide_key :: string
  layout_index :: int
  placeholders :: "PlaceholderMapping list"
  slide_title_path :: "string option"

text \<open>\<^verbatim>\<open>PlaceholderMapping(i, t, p)\<close> with the dataclass defaults.\<close>

definition mk_placeholder :: "int \<Rightarrow> ContentType \<Rightarrow> string \<Rightarrow> PlaceholderMapping" where
  "mk_placeholder i t p =
     \<lparr>placeholder_index = i, content_type = t, json_path = p,
      jinja_enabled = True, formatting_options = None\<rparr>"

definition create_default_config :: "SlideConfig list" where
  "create_default_config =
    [\<lparr>slide_key = ''title_slide'', layout_index = 0,
      placeholders =
        [mk_placeholder 0 TITLE ''presentation_data.title_slide.title'',
         mk_placeholder 1 SUBTITLE ''presentation_data.title_slide.subtitle''],
      slide_title_path = Some ''presentation_data.title_slide.title''\<rparr>,
     \<lparr>slide_key = ''benefits_slide'', layout_index = 1,
      placeholders =
        [mk_placeholder 0 TITLE ''presentation_data.benefits_slide.slide_title'',
         mk_placeholder 1 BULLET_LIST ''presentation_data.benefits_slide.text_body'',
         mk_placeholder 2 IMAGE ''presentation_data.benefits_slide.image_description''],
      slide_title_path = Some ''presentation_data.benefits_slide.slide_title''\<rparr>,
     \<lparr>slide_key = ''impact_slide'', layout_index = 1,
      placeholders =
        [mk_placeholder 0 TITLE ''presentation_data.impact_slide.slide_title'',
         mk_placeholder 1 TABLE ''presentation_data.impact_slide.table_data''],
      slide_title_path = Some ''presentation_data.impact_slide.slide_title''\<rparr>]"

subsection \<open>Path lookup\<close>

text \<open>\<^verbatim>\<open>s.split(c)\<close> for a one-character separator: one more piece than there are
  separators, empty pieces kept.\<close>

fun py_split :: "char \<Rightarrow> string \<Rightarrow> string list" where
  "py_split c [] = [[]]"
| "py_split c (x # xs) =
     (if x = c then [] # py_split c xs
      else (case py_split c xs of
              [] \<Rightarrow> [[x]]
            | w # ws \<Rightarrow> (x # w) # ws))"

text \<open>\<^verbatim>\<open>value[key]\<close> with a string key: a dictionary raises \<^verbatim>\<open>KeyError\<close> on a
  missing key; a list or a string wants an integer index and raises \<^verbatim>\<open>TypeError\<close>;
  \<^verbatim>\<open>None\<close>, booleans and numbers are not subscriptable and raise \<^verbatim>\<open>TypeError\<close>.\<close>

fun getitem :: "json \<Rightarrow> string \<Rightarrow> exn + json" where
  "getitem (JDict kvs) k = (case map_of kvs k of None \<Rightarrow> Inl KeyError | Some v \<Rightarrow> Inr v)"
| "getitem JNull k = Inl TypeError"
| "getitem (JBool b) k = Inl TypeError"
| "getitem (JInt n) k = Inl TypeError"
| "getitem (JFloat q) k = Inl TypeError"
| "getitem (JStr s) k = Inl TypeError"
| "getitem (JList xs) k = Inl TypeError"

text \<open>The loop \<^verbatim>\<open>for key in keys: value = value[key]\<close>.\<close>

fun walk :: "json \<Rightarrow> string list \<Rightarrow> exn + json" where
  "walk v [] = Inr v"
| "walk v (k # ks) = (case getitem v k of Inl e \<Rightarrow> Inl e | Inr v' \<Rightarrow> walk v' ks)"

text \<open>The handler \<^verbatim>\<open>except (KeyError, TypeError): return None\<close>; any other exception
  leaves the function.\<close>

definition get_json_value_by_path :: "json \<Rightarrow> string \<Rightarrow> exn + json" where
  "get_json_value_by_path data p =
     (case walk data (py_split CHR ''.'' p) of
        Inr v \<Rightarrow> Inr v
      | Inl KeyError \<Rightarrow> Inr JNull
      | Inl TypeError \<Rightarrow> Inr JNull
      | Inl e \<Rightarrow> Inl e)"

text \<open>The resolver in the specification's words: a recursive descent over the record
  that is defined exactly where every segment names a key of a mapping.\<close>

fun resolve :: "json \<Rightarrow> string list \<Rightarrow> json option" where
  "resolve v [] = Some v"
| "resolve (JDict kvs) (k # ks) =
     (case map_of kvs k of None \<Rightarrow> None | Some v \<Rightarrow> resolve v ks)"
| "resolve v (k # ks) = None"

subsection \<open>Validation\<close>

text \<open>\<^verbatim>\<open>isinstance(value, list)\<close>.\<close>

fun isinstance_list :: "json \<Rightarrow> bool" where
  "isinstance_list (JList xs) = True"
| "isinstance_list v = False"

text \<open>The inner loop over the placeholders of one slide; \<open>errors\<close> is the list being
  appended to.\<close>

fun check_placeholders :: "json \<Rightarrow> PlaceholderMapping list \<Rightarrow> string list \<Rightarrow> exn + string list" where
  "check_placeholders data [] errors = Inr errors"
| "check_placeholders data (ph # phs) errors =
     (case get_json_value_by_path data (json_path ph) of
        Inl e \<Rightarrow> Inl e
      | Inr v \<Rightarrow>
          if v = JNull then
            check_placeholders data phs (errors @ [''Missing data for path: '' @ json_path ph])
          else if content_type ph = TABLE \<and> \<not> isinstance_list v then
            check_placeholders data phs (errors @ [''Table data must be a list: '' @ json_path ph])
          else if content_type ph = BULLET_LIST \<and> \<not> isinstance_list v then
            check_placeholders data phs
              (errors @ [''Bullet list data must be a list: '' @ json_path ph])
          else check_placeholders data phs errors)"

text \<open>The outer loop over \<^verbatim>\<open>self.slides_config\<close>; a slide whose block is \<^verbatim>\<open>None\<close>
  gets one message and \<^verbatim>\<open>continue\<close>.\<close>

fun validate_loop :: "json \<Rightarrow> SlideConfig list \<Rightarrow> string list \<Rightarrow> exn + string list" where
  "validate_loop data [] errors = Inr errors"
| "validate_loop data (sc # scs) errors =
     (case get_json_value_by_path data (''presentation_data.'' @ slide_key sc) of
        Inl e \<Rightarrow> Inl e
      | Inr slide_data \<Rightarrow>
          if slide_data = JNull then
            validate_loop data scs (errors @ [''Missing slide data for: '' @ slide_key sc])
          else (case check_placeholders data (placeholders sc) errors of
                  Inl e \<Rightarrow> Inl e
                | Inr errors' \<Rightarrow> validate_loop data scs errors'))"

text \<open>\<^verbatim>\<open>validate_data_structure\<close> of a configuration object whose \<^verbatim>\<open>slides_config\<close> is the
  first argument.\<close>

definition validate_data_structure :: "SlideConfig list \<Rightarrow> json \<Rightarrow> exn + string list" where
  "validate_data_structure slides_config data = validate_loop data slides_config []"

subsection \<open>What the validation reports, as plain functions\<close>

text \<open>The value the lookup hands to its caller: the nested value where the path
  resolves, \<^verbatim>\<open>None\<close> where it does not.\<close>

definition value_at :: "json \<Rightarrow> string \<Rightarrow> json" where
  "value_at d p = (case resolve d (py_split CHR ''.'' p) of Some v \<Rightarrow> v | None \<Rightarrow> JNull)"

text \<open>The messages one placeholder and one slide contribute.\<close>

definition placeholder_errors :: "json \<Rightarrow> PlaceholderMapping \<Rightarrow> string list" where
  "placeholder_errors d ph =
     (if value_at d (json_path ph) = JNull then [''Missing data for path: '' @ json_path ph]
      else if content_type ph = TABLE \<and> \<not> isinstance_list (value_at d (json_path ph))
        then [''Table data must be a list: '' @ json_path ph]
      else if content_type ph = BULLET_LIST \<and> \<not> isinstance_list (value_at d (json_path ph))
        then [''Bullet list data must be a list: '' @ json_path ph]
      else [])"

definition slide_errors :: "json \<Rightarrow> SlideConfig \<Rightarrow> string list" where
  "slide_errors d sc =
     (if value_at d (''presentation_data.'' @ slide_key sc) = JNull
      then [''Missing slide data for: '' @ slide_key sc]
      else concat (map (placeholder_errors d) (placeholders sc)))"

text \<open>Two content records used as test data: the first has no \<^verbatim>\<open>benefits_slide\<close> block
  and a string where the impact table should be, the second a string where the benefit
  bullets should be.\<close>

definition content_example :: json where
  "content_example =
     JDict [(''presentation_data'',
       JDict [(''title_slide'',
                 JDict [(''title'', JStr ''Urban Farming''), (''subtitle'', JStr ''2024''),
                        (''tags'', JList [JStr ''a''])]),
              (''impact_slide'',
                 JDict [(''slide_title'', JStr ''Impact''), (''table_data'', JStr ''n/a'')])])]"

definition content_example2 :: json where
  "content_example2 =
     JDict [(''presentation_data'',
       JDict [(''benefits_slide'',
                 JDict [(''slide_title'', JStr ''Benefits''),
                        (''text_body'', JStr ''fresh food'')])])]"

section \<open>Template analyzer (\<^verbatim>\<open>template_analyzer.py\<close>)\<close>

text \<open>An \<^verbatim>\<open>ElementTree\<close> element: its tag (with the namespace in braces, as the library
  writes it), its attributes, its text and its children in document order.\<close>

datatype xml = Element (tag: string) (attrib: "(string \<times> string) list")
  (text_of: "string option") (children: "xml list")

text \<open>\<^verbatim>\<open>root.find(path, namespaces)\<close> for a path that is a single prefixed tag: the first
  direct child with that tag, or \<^verbatim>\<open>None\<close>. \<^verbatim>\<open>element.get(key)\<close> is the attribute, or
  \<^verbatim>\<open>None\<close>.\<close>

definition find_child :: "string \<Rightarrow> xml \<Rightarrow> xml option" where
  "find_child t tree_root = List.find (\<lambda>c. tag c = t) (children tree_root)"

definition elem_get :: "xml \<Rightarrow> string \<Rightarrow> string option" where
  "elem_get e k = map_of (attrib e) k"

text \<open>The tag that \<^verbatim>\<open>p:sldSz\<close> stands for under the namespace map of the function.\<close>

definition sldSz_tag :: string where
  "sldSz_tag = ''{http://schemas.openxmlformats.org/presentationml/2006/main}sldSz''"

text \<open>\<^verbatim>\<open>get_slide_dimensions\<close>. Reading and parsing the file is the library's
  \<^verbatim>\<open>ET.parse\<close>, a parameter here: it gives the tree_root element of the document or raises.
  The returned dictionary is an association list; \<^verbatim>\<open>{}\<close> is the empty list.\<close>

definition get_slide_dimensions ::
  "('f \<Rightarrow> exn + xml) \<Rightarrow> 'f \<Rightarrow> exn + (string \<times> string option) list" where
  "get_slide_dimensions ET_parse presentation_xml_file =
     (case ET_parse presentation_xml_file of
        Inl e \<Rightarrow> Inl e
      | Inr tree_root \<Rightarrow>
          (case find_child sldSz_tag tree_root of
             Some sld_sz \<Rightarrow>
               Inr [(''width'', elem_get sld_sz ''cx''), (''height'', elem_get sld_sz ''cy'')]
           | None \<Rightarrow> Inr []))"

text \<open>Test data: a parser that knows two files, one with a slide-size element after a
  master list and one without.\<close>

definition presentation_xml_example :: xml where
  "presentation_xml_example =
     Element ''{http://schemas.openxmlformats.org/presentationml/2006/main}presentation'' []
       None
       [Element ''{http://schemas.openxmlformats.org/presentationml/2006/main}sldMasterIdLst''
          [] None [],
        Element ''{http://schemas.openxmlformats.org/presentationml/2006/main}sldSz''
          [(''cx'', ''12192000''), (''cy'', ''6858000'')] None []]"

definition parse_example :: "string \<Rightarrow> exn + xml" where
  "parse_example f =
     (if f = ''presentation.xml'' then Inr presentation_xml_example
      else if f = ''bare.xml'' then
        Inr (Element ''{http://schemas.openxmlformats.org/presentationml/2006/main}presentation''
               [] None [])
      else Inl OSError)"

section \<open>Design properties extractor (\<^verbatim>\<open>design_properties_extractor.py\<close>)\<close>

subsection \<open>Hex colours\<close>

type_synonym rgb = "int \<times> int \<times> int"

definition hex_digit :: "char \<Rightarrow> int option" where
  "hex_digit c =
     (let n = (of_char c :: nat) in
      if 48 \<le> n \<and> n \<le> 57 then Some (int n - 48)
      else if 97 \<le> n \<and> n \<le> 102 then Some (int n - 87)
      else if 65 \<le> n \<and> n \<le> 70 then Some (int n - 55)
      else None)"

definition is_space :: "char \<Rightarrow> bool" where
  "is_space c = ((of_char c :: nat) \<in> {9, 10, 11, 12, 13, 28, 29, 30, 31, 32})"

fun digits_val :: "int \<Rightarrow> string \<Rightarrow> int option" where
  "digits_val acc [] = Some acc"
| "digits_val acc (c # cs) =
     (case hex_digit c of None \<Rightarrow> None | Some d \<Rightarrow> digits_val (16 * acc + d) cs)"

text \<open>\<^verbatim>\<open>int(s, 16)\<close> on a slice of at most two characters: surrounding white space is
  dropped, one sign is allowed, and what is left must be hexadecimal digits, at least one.
  (The \<^verbatim>\<open>0x\<close> prefix and the underscores that Python also accepts need three characters
  to form a valid number.) Anything else raises \<^verbatim>\<open>ValueError\<close>.\<close>

definition py_int16 :: "string \<Rightarrow> exn + int" where
  "py_int16 s =
     (let t = rev (dropWhile is_space (rev (dropWhile is_space s)));
          sd = (case t of
                  [] \<Rightarrow> (1, [])
                | c # r \<Rightarrow> if c = CHR ''-'' then (- 1, r)
                           else if c = CHR ''+'' then (1, r) else (1, t))
      in if snd sd = [] then Inl ValueError
         else (case digits_val 0 (snd sd) of
                 None \<Rightarrow> Inl ValueError
               | Some n \<Rightarrow> Inr (fst sd * n)))"

text \<open>\<^verbatim>\<open>hex_to_rgb\<close>: \<^verbatim>\<open>lstrip('#')\<close> drops every leading \<^verbatim>\<open>#\<close>; the slices
  \<^verbatim>\<open>[0:2]\<close>, \<^verbatim>\<open>[2:4]\<close>, \<^verbatim>\<open>[4:6]\<close> never raise, the conversions do, in that order.\<close>

definition hex_to_rgb :: "string \<Rightarrow> exn + rgb" where
  "hex_to_rgb hex_color =
     (let h = dropWhile (\<lambda>c. c = CHR ''#'') hex_color in
      case py_int16 (take 2 h) of
        Inl e \<Rightarrow> Inl e
      | Inr r \<Rightarrow>
          (case py_int16 (take 2 (drop 2 h)) of
             Inl e \<Rightarrow> Inl e
           | Inr g \<Rightarrow>
               (case py_int16 (take 2 (drop 4 h)) of
                  Inl e \<Rightarrow> Inl e
                | Inr b \<Rightarrow> Inr (r, g, b))))"

subsection \<open>Colour categories\<close>

text \<open>
  The conversion to HSL is floating-point arithmetic and a call of the standard library's
  \<^verbatim>\<open>colorsys.rgb_to_hls\<close>. Neither is code of this repository, so they are parameters:
  \<open>div255 x\<close> is \<^verbatim>\<open>x/255.0\<close>, \<open>rgb_to_hls\<close> the library function, and
  \<open>scale_int v k\<close> is \<^verbatim>\<open>int(v*k)\<close>. Everything below holds for any such operations.
\<close>

record 'f float_ops =
  div255 :: "int \<Rightarrow> 'f"
  rgb_to_hls :: "'f \<Rightarrow> 'f \<Rightarrow> 'f \<Rightarrow> 'f \<times> 'f \<times> 'f"
  scale_int :: "'f \<Rightarrow> int \<Rightarrow> int"

definition rgb_to_hsl :: "'f float_ops \<Rightarrow> rgb \<Rightarrow> int \<times> int \<times> int" where
  "rgb_to_hsl F rgb =
     (case rgb of (r, g, b) \<Rightarrow>
        (case rgb_to_hls F (div255 F r) (div255 F g) (div255 F b) of (h, l, s) \<Rightarrow>
           (scale_int F h 360, scale_int F s 100, scale_int F l 100)))"

record color_analysis =
  category :: string
  hue :: int
  saturation :: int
  lightness :: int
  is_green_family :: bool

definition categorize_color :: "'f float_ops \<Rightarrow> string \<Rightarrow> exn + color_analysis" where
  "categorize_color F hex_color =
     (case hex_to_rgb hex_color of
        Inl e \<Rightarrow> Inl e
      | Inr rgb \<Rightarrow>
          (case rgb_to_hsl F rgb of (h, s, l) \<Rightarrow>
             Inr \<lparr>category =
                    (if l > 90 then ''light''
                     else if l < 20 then ''dark''
                     else if s < 20 then ''neutral''
                     else if 80 \<le> h \<and> h \<le> 140 then ''primary_green''
                     else if 140 \<le> h \<and> h \<le> 200 then ''secondary_green''
                     else ''accent''),
                  hue = h, saturation = s, lightness = l,
                  is_green_family = (80 \<le> h \<and> h \<le> 200)\<rparr>))"

text \<open>An instance of the operations in exact rational arithmetic, to run the definitions
  on concrete colours: the hue, lightness and saturation formulas of \<^verbatim>\<open>colorsys\<close> without
  rounding.\<close>

definition exact_rgb_to_hls :: "rat \<Rightarrow> rat \<Rightarrow> rat \<Rightarrow> rat \<times> rat \<times> rat" where
  "exact_rgb_to_hls r g b =
     (let maxc = max r (max g b); minc = min r (min g b);
          sumc = maxc + minc; rangec = maxc - minc; l = sumc / 2
      in if minc = maxc then (0, l, 0)
         else
           (let s = (if l \<le> 1 / 2 then rangec / sumc else rangec / (2 - maxc - minc));
                rc = (maxc - r) / rangec; gc = (maxc - g) / rangec; bc = (maxc - b) / rangec;
                h = (if r = maxc then bc - gc
                     else if g = maxc then 2 + rc - bc else 4 + gc - rc)
            in (frac (h / 6), l, s)))"

definition exact_ops :: "rat float_ops" where
  "exact_ops =
     \<lparr>div255 = (\<lambda>x. of_int x / 255),
      rgb_to_hls = exact_rgb_to_hls,
      scale_int = (\<lambda>v k. if 0 \<le> v * of_int k then \<lfloor>v * of_int k\<rfloor> else \<lceil>v * of_int k\<rceil>)\<rparr>"

section \<open>Floating-point numbers\<close>

text \<open>
  A Python float is kept as the rational number it denotes. An arithmetic operation
  computes the exact result and rounds it. \<open>rnd53\<close> is the rounding of IEEE 754 binary64:
  to 53 significant bits, to the nearest such number, a tie going to the even one. The
  exponent is not bounded here, so \<open>rnd53\<close> is the interpreter's rounding for results of
  magnitude from \<open>2^-1022\<close> up to the largest double; overflow to infinity and gradual
  underflow are not represented.
\<close>

definition pow2 :: "int \<Rightarrow> rat" where
  "pow2 e = (if 0 \<le> e then 2 ^ nat e else 1 / 2 ^ nat (- e))"

text \<open>The exponent \<open>e\<close> with \<open>2^e \<le> a < 2^(e+1)\<close>, for positive \<open>a\<close>.\<close>

definition ilog2 :: "rat \<Rightarrow> int" where
  "ilog2 a =
     (if 1 \<le> a then bitlen \<lfloor>a\<rfloor> - 1
      else (let k = bitlen \<lfloor>1 / a\<rfloor> - 1 in if a = pow2 (- k) then - k else - k - 1))"

definition round_half_even :: "rat \<Rightarrow> int" where
  "round_half_even y =
     (let n = \<lfloor>y\<rfloor>; f = y - of_int n in
      if f < 1 / 2 then n
      else if 1 / 2 < f then n + 1
      else if even n then n else n + 1)"

definition rnd53 :: "rat \<Rightarrow> rat" where
  "rnd53 x =
     (if x = 0 then 0
      else (let q = pow2 (ilog2 \<bar>x\<bar> - 52) in
            sgn x * of_int (round_half_even (\<bar>x\<bar> / q)) * q))"

text \<open>\<^verbatim>\<open>int(x)\<close> of a float: truncation towards zero.\<close>

definition py_trunc :: "rat \<Rightarrow> int" where
  "py_trunc x = (if 0 \<le> x then \<lfloor>x\<rfloor> else \<lceil>x\<rceil>)"

text \<open>The arithmetic a function is run with: the rounding of results, and
  \<^verbatim>\<open>float(s)\<close> of a string, which is the interpreter's parser.\<close>

record float_arith =
  rnd :: "rat \<Rightarrow> rat"
  float_of_str :: "string \<Rightarrow> exn + rat"

text \<open>Binary64 arithmetic, around a parser of strings.\<close>

definition binary64 :: "(string \<Rightarrow> exn + rat) \<Rightarrow> float_arith" where
  "binary64 parse = \<lparr>rnd = rnd53, float_of_str = parse\<rparr>"

section \<open>Presentation generator (\<^verbatim>\<open>enhanced_presentation_generator.py\<close>)\<close>

subsection \<open>Python operations on loaded values\<close>

text \<open>\<^verbatim>\<open>d.get(k, default)\<close>: only a dictionary has the method.\<close>

fun py_get :: "json \<Rightarrow> string \<Rightarrow> json \<Rightarrow> exn + json" where
  "py_get (JDict kvs) k dflt = Inr (case map_of kvs k of None \<Rightarrow> dflt | Some v \<Rightarrow> v)"
| "py_get v k dflt = Inl AttributeError"

text \<open>The truth value of an object in a condition.\<close>

fun py_truthy :: "json \<Rightarrow> bool" where
  "py_truthy JNull = False"
| "py_truthy (JBool b) = b"
| "py_truthy (JInt n) = (n \<noteq> 0)"
| "py_truthy (JFloat q) = (q \<noteq> 0)"
| "py_truthy (JStr s) = (s \<noteq> [])"
| "py_truthy (JList xs) = (xs \<noteq> [])"
| "py_truthy (JDict kvs) = (kvs \<noteq> [])"

text \<open>\<^verbatim>\<open>k in v\<close> for a string \<open>k\<close>: key membership in a dictionary, element membership
  in a list, substring test in a string, \<^verbatim>\<open>TypeError\<close> otherwise.\<close>

fun py_contains :: "string \<Rightarrow> json \<Rightarrow> exn + bool" where
  "py_contains k (JDict kvs) = Inr (map_of kvs k \<noteq> None)"
| "py_contains k (JList xs) = Inr (JStr k \<in> set xs)"
| "py_contains k (JStr s) = Inr (sublist k s)"
| "py_contains k v = Inl TypeError"

text \<open>The keys of a dictionary, each once, in the order of their first binding.\<close>

fun dict_keys :: "string list \<Rightarrow> (string \<times> json) list \<Rightarrow> string list" where
  "dict_keys seen [] = []"
| "dict_keys seen ((k, v) # kvs) =
     (if k \<in> set seen then dict_keys seen kvs else k # dict_keys (k # seen) kvs)"

text \<open>The items a \<^verbatim>\<open>for\<close> loop visits: the elements of a list, the keys of a
  dictionary, the characters of a string; other values are not iterable.\<close>

fun py_iter :: "json \<Rightarrow> exn + json list" where
  "py_iter (JList xs) = Inr xs"
| "py_iter (JDict kvs) = Inr (map JStr (dict_keys [] kvs))"
| "py_iter (JStr s) = Inr (map (\<lambda>c. JStr [c]) s)"
| "py_iter v = Inl TypeError"

text \<open>Sequencing of calls that may raise.\<close>

definition and_then :: "exn + 'a \<Rightarrow> ('a \<Rightarrow> exn + 'b) \<Rightarrow> exn + 'b" where
  "and_then m f = (case m of Inl e \<Rightarrow> Inl e | Inr v \<Rightarrow> f v)"

subsection \<open>The objects of the presentation library\<close>

text \<open>
  The \<^verbatim>\<open>python-pptx\<close> objects the generator touches, reduced to what it reads and
  writes. A text frame is its list of paragraphs; a paragraph has runs and an indentation
  level; a run has text and a font. A string assigned to a text frame or a paragraph is
  kept as one run (none for the empty string); line breaks inside it are not interpreted.
  A placeholder has the index of its layout slot; \<^verbatim>\<open>slide.shapes.title\<close> is the first
  placeholder with index 0 and \<^verbatim>\<open>slide.placeholders[i]\<close> the first with index \<open>i\<close>.
  \<open>layout_placeholders\<close> are the placeholders a new slide gets from the layout. A
  background is inherited (\<open>NoFill\<close>) until \<^verbatim>\<open>fill.solid()\<close> makes it a solid fill, whose
  colour is set by a second assignment.
\<close>

record font =
  font_name :: "string option"
  font_size :: "json option"
  font_rgb :: "rgb option"

record text_run =
  run_text :: string
  run_font :: font

record pptx_paragraph =
  par_runs :: "text_run list"
  par_level :: nat

record placeholder =
  ph_idx :: nat
  has_text_frame :: bool
  text_frame :: "pptx_paragraph list"

datatype fill = NoFill | SolidFill "rgb option"

record layout =
  layout_name :: string
  layout_placeholders :: "placeholder list"

record slide =
  slide_layout :: layout
  slide_placeholders :: "placeholder list"
  background :: fill

record presentation =
  slide_layouts :: "layout list"
  slides :: "slide list"

definition runs_of :: "string \<Rightarrow> text_run list" where
  "runs_of s =
     (if s = [] then []
      else [\<lparr>run_text = s,
             run_font = \<lparr>font_name = None, font_size = None, font_rgb = None\<rparr>\<rparr>])"

definition par_text :: "pptx_paragraph \<Rightarrow> string" where
  "par_text p = concat (map run_text (par_runs p))"

text \<open>\<^verbatim>\<open>text_frame.text = s\<close> replaces the whole content by one paragraph;
  \<^verbatim>\<open>text_frame.clear()\<close> leaves one empty paragraph, keeping the properties of the first;
  \<^verbatim>\<open>p = text_frame.add_paragraph(); p.text = s; p.level = n\<close> appends one.\<close>

definition set_text :: "string \<Rightarrow> pptx_paragraph list" where
  "set_text s = [\<lparr>par_runs = runs_of s, par_level = 0\<rparr>]"

definition clear_text :: "pptx_paragraph list \<Rightarrow> pptx_paragraph list" where
  "clear_text tf =
     (case tf of
        [] \<Rightarrow> [\<lparr>par_runs = [], par_level = 0\<rparr>]
      | p # ps \<Rightarrow> [p\<lparr>par_runs := []\<rparr>])"

definition add_paragraph :: "string \<Rightarrow> nat \<Rightarrow> pptx_paragraph list \<Rightarrow> pptx_paragraph list" where
  "add_paragraph s n tf = tf @ [\<lparr>par_runs = runs_of s, par_level = n\<rparr>]"

text \<open>\<^verbatim>\<open>shape.text = v\<close>: the shape needs a text frame and \<open>v\<close> must be a string
  (the text of an XML element can be \<^verbatim>\<open>None\<close>).\<close>

definition set_shape_text :: "string option \<Rightarrow> placeholder \<Rightarrow> exn + placeholder" where
  "set_shape_text v p =
     (if \<not> has_text_frame p then Inl AttributeError
      else (case v of
              None \<Rightarrow> Inl TypeError
            | Some s \<Rightarrow> Inr (p\<lparr>text_frame := set_text s\<rparr>)))"

fun ph_position :: "nat \<Rightarrow> placeholder list \<Rightarrow> nat option" where
  "ph_position i [] = None"
| "ph_position i (p # ps) =
     (if ph_idx p = i then Some 0 else map_option Suc (ph_position i ps))"

text \<open>\<^verbatim>\<open>prs.slides.add_slide(layout)\<close> appends a slide built from the layout.\<close>

definition new_slide :: "layout \<Rightarrow> slide" where
  "new_slide l =
     \<lparr>slide_layout = l, slide_placeholders = layout_placeholders l, background = NoFill\<rparr>"

definition add_slide :: "presentation \<Rightarrow> slide \<Rightarrow> presentation" where
  "add_slide prs s = prs\<lparr>slides := slides prs @ [s]\<rparr>"

text \<open>\<^verbatim>\<open>RGBColor(r, g, b)\<close> wants three integers from 0 to 255.\<close>

definition RGBColor :: "rgb \<Rightarrow> exn + rgb" where
  "RGBColor c =
     (case c of (r, g, b) \<Rightarrow>
        if 0 \<le> r \<and> r \<le> 255 \<and> 0 \<le> g \<and> g \<le> 255 \<and> 0 \<le> b \<and> b \<le> 255 then Inr c
        else Inl ValueError)"

text \<open>\<^verbatim>\<open>Pt(size)\<close> multiplies by 12700 and converts to an integer length. A number
  passes and is kept here in points, as given; \<^verbatim>\<open>None\<close>, a list or a dictionary raise
  \<^verbatim>\<open>TypeError\<close>, a string (repeated 12700 times before the conversion) raises
  \<^verbatim>\<open>ValueError\<close>.\<close>

fun Pt :: "json \<Rightarrow> exn + json" where
  "Pt (JInt n) = Inr (JInt n)"
| "Pt (JFloat q) = Inr (JFloat q)"
| "Pt (JBool b) = Inr (JBool b)"
| "Pt (JStr s) = Inl ValueError"
| "Pt v = Inl TypeError"

text \<open>\<^verbatim>\<open>run.font.name = v\<close>: a string, or \<^verbatim>\<open>None\<close> to remove the typeface.\<close>

fun set_font_name :: "json \<Rightarrow> exn + string option" where
  "set_font_name (JStr s) = Inr (Some s)"
| "set_font_name JNull = Inr None"
| "set_font_name v = Inl TypeError"

subsection \<open>The external engines\<close>

text \<open>
  The Jinja environment and the XML parser are collaborators, not code of the repository.
  They are parameters: \<open>from_string\<close> and \<open>get_template\<close> compile a template or raise,
  \<open>render\<close> runs one against a context or raises, \<open>fromstring\<close> is the recovering
  \<^verbatim>\<open>lxml\<close> parser (a root element, \<^verbatim>\<open>None\<close> when nothing could be recovered, or an
  exception), and \<open>repr_of\<close> is \<^verbatim>\<open>str\<close> of a value that is not a string.
\<close>

record 't engines =
  from_string :: "json \<Rightarrow> exn + 't"
  get_template :: "string \<Rightarrow> exn + 't"
  render :: "'t \<Rightarrow> json \<Rightarrow> exn + string"
  fromstring :: "string \<Rightarrow> exn + xml option"
  repr_of :: "json \<Rightarrow> string"

fun py_str :: "'t engines \<Rightarrow> json \<Rightarrow> string" where
  "py_str E (JStr s) = s"
| "py_str E v = repr_of E v"

subsection \<open>Styling\<close>

text \<open>\<^verbatim>\<open>_hex_to_rgb\<close> of the generator has the body of the extractor's \<^verbatim>\<open>hex_to_rgb\<close>; its
  argument comes from the design configuration and need not be a string, in which case
  \<^verbatim>\<open>lstrip\<close> is missing.\<close>

fun gen_hex_to_rgb :: "json \<Rightarrow> exn + rgb" where
  "gen_hex_to_rgb (JStr s) = hex_to_rgb s"
| "gen_hex_to_rgb v = Inl AttributeError"

text \<open>The text colour of a run: the four statements after the size assignment in the
  loop of \<^verbatim>\<open>_apply_font_styling\<close>.\<close>

definition text_color_of :: "json \<Rightarrow> exn + rgb" where
  "text_color_of design_config =
     and_then (py_get design_config ''color_scheme'' (JDict [])) (\<lambda>color_scheme.
     and_then (py_get color_scheme ''text_dark'' (JStr ''#000000'')) (\<lambda>text_color.
     and_then (gen_hex_to_rgb text_color) RGBColor))"

text \<open>One pass of the inner loop body on a run. The result is the exception that
  stopped the pass, if any, and the run as the assignments made so far leave it.\<close>

definition style_run :: "json \<Rightarrow> json \<Rightarrow> json \<Rightarrow> text_run \<Rightarrow> exn option \<times> text_run" where
  "style_run design_config family fsize r =
     (case set_font_name family of
        Inl e \<Rightarrow> (Some e, r)
      | Inr nm \<Rightarrow>
          (let r1 = r\<lparr>run_font := (run_font r)\<lparr>font_name := nm\<rparr>\<rparr> in
           case Pt fsize of
             Inl e \<Rightarrow> (Some e, r1)
           | Inr sz \<Rightarrow>
               (let r2 = r1\<lparr>run_font := (run_font r1)\<lparr>font_size := Some sz\<rparr>\<rparr> in
                case text_color_of design_config of
                  Inl e \<Rightarrow> (Some e, r2)
                | Inr c \<Rightarrow> (None, r2\<lparr>run_font := (run_font r2)\<lparr>font_rgb := Some c\<rparr>\<rparr>))))"

fun style_runs :: "json \<Rightarrow> json \<Rightarrow> json \<Rightarrow> text_run list \<Rightarrow> exn option \<times> text_run list" where
  "style_runs design_config family fsize [] = (None, [])"
| "style_runs design_config family fsize (r # rs) =
     (case style_run design_config family fsize r of
        (Some e, r') \<Rightarrow> (Some e, r' # rs)
      | (None, r') \<Rightarrow>
          (case style_runs design_config family fsize rs of
             (e, rs') \<Rightarrow> (e, r' # rs')))"

fun style_paragraphs ::
  "json \<Rightarrow> json \<Rightarrow> json \<Rightarrow> pptx_paragraph list \<Rightarrow> exn option \<times> pptx_paragraph list" where
  "style_paragraphs design_config family fsize [] = (None, [])"
| "style_paragraphs design_config family fsize (p # ps) =
     (case style_runs design_config family fsize (par_runs p) of
        (Some e, rs) \<Rightarrow> (Some e, p\<lparr>par_runs := rs\<rparr> # ps)
      | (None, rs) \<Rightarrow>
          (case style_paragraphs design_config family fsize ps of
             (e, ps') \<Rightarrow> (e, p\<lparr>par_runs := rs\<rparr> # ps')))"

text \<open>\<^verbatim>\<open>size_map.get(font_type, 18)\<close> for the five-entry size map.\<close>

definition size_for :: "(string \<times> json) list \<Rightarrow> string \<Rightarrow> json" where
  "size_for fonts_config font_type =
     (let gt = (\<lambda>k d. case map_of fonts_config k of None \<Rightarrow> JInt d | Some v \<Rightarrow> v) in
      if font_type = ''title'' then gt ''title_size'' 44
      else if font_type = ''heading'' then gt ''heading_size'' 32
      else if font_type = ''subheading'' then gt ''subheading_size'' 24
      else if font_type = ''body'' then gt ''body_size'' 18
      else if font_type = ''caption'' then gt ''caption_size'' 14
      else JInt 18)"

text \<open>\<^verbatim>\<open>_apply_font_styling\<close>: every exception is caught and reported, so the function
  returns; the text frame keeps the assignments made before the exception.\<close>

definition apply_font_styling :: "json \<Rightarrow> pptx_paragraph list \<Rightarrow> string \<Rightarrow> pptx_paragraph list" where
  "apply_font_styling design_config tf font_type =
     (case py_get design_config ''fonts'' (JDict []) of
        Inl e \<Rightarrow> tf
      | Inr (JDict fonts_config) \<Rightarrow>
          snd (style_paragraphs design_config
                 (case map_of fonts_config ''primary'' of None \<Rightarrow> JStr ''Calibri'' | Some v \<Rightarrow> v)
                 (size_for fonts_config font_type) tf)
      | Inr v \<Rightarrow> tf)"

text \<open>The background step of \<^verbatim>\<open>_create_styled_slide\<close>, with its handler: an exception
  after \<^verbatim>\<open>fill.solid()\<close> leaves a solid fill without a colour.\<close>

definition style_background :: "json \<Rightarrow> slide \<Rightarrow> slide" where
  "style_background design_config s =
     (case py_get design_config ''color_scheme'' (JDict []) of
        Inl e \<Rightarrow> s
      | Inr color_scheme \<Rightarrow>
          (case py_get color_scheme ''background'' JNull of
             Inl e \<Rightarrow> s
           | Inr bg_color \<Rightarrow>
               if py_truthy bg_color \<and> bg_color \<noteq> JStr ''#FFFFFF'' then
                 (case and_then (gen_hex_to_rgb bg_color) RGBColor of
                    Inl e \<Rightarrow> s\<lparr>background := SolidFill None\<rparr>
                  | Inr c \<Rightarrow> s\<lparr>background := SolidFill (Some c)\<rparr>)
               else s))"

text \<open>\<^verbatim>\<open>_create_styled_slide\<close>: indexing the layouts is outside the handler. The new slide
  is the last slide of the returned presentation. \<open>py_index\<close> is indexing of a
  sequence, where a negative index counts from the end.\<close>

definition py_index :: "'a list \<Rightarrow> int \<Rightarrow> 'a option" where
  "py_index xs i =
     (if 0 \<le> i \<and> i < int (length xs) then Some (xs ! nat i)
      else if i < 0 \<and> - int (length xs) \<le> i then Some (xs ! nat (int (length xs) + i))
      else None)"

definition create_styled_slide :: "json \<Rightarrow> presentation \<Rightarrow> int \<Rightarrow> exn + presentation" where
  "create_styled_slide design_config prs i =
     (case py_index (slide_layouts prs) i of
        None \<Rightarrow> Inl IndexError
      | Some slide_layout_i \<Rightarrow>
          Inr (add_slide prs (style_background design_config (new_slide slide_layout_i))))"

subsection \<open>Slides from data\<close>

text \<open>\<^verbatim>\<open>process_text_with_jinja\<close>: \<^verbatim>\<open>render(**data)\<close> needs a mapping.\<close>

definition process_text_with_jinja :: "'t engines \<Rightarrow> json \<Rightarrow> json \<Rightarrow> exn + string" where
  "process_text_with_jinja E text_in data =
     and_then (from_string E text_in) (\<lambda>template.
       case data of JDict kvs \<Rightarrow> render E template data | _ \<Rightarrow> Inl TypeError)"

text \<open>The loop \<^verbatim>\<open>for i, item in enumerate(content)\<close> of
  \<^verbatim>\<open>create_enhanced_content_slide\<close>; the flag says whether \<open>i\<close> is still 0. The result
  is the exception that stopped the loop, if any, and the text frame at that point.\<close>

fun bullet_loop ::
  "'t engines \<Rightarrow> json \<Rightarrow> bool \<Rightarrow> json list \<Rightarrow> pptx_paragraph list \<Rightarrow> exn option \<times> pptx_paragraph list" where
  "bullet_loop E data first [] tf = (None, tf)"
| "bullet_loop E data first (item # items) tf =
     (case process_text_with_jinja E (JStr (py_str E item)) data of
        Inl e \<Rightarrow> (Some e, tf)
      | Inr processed_item \<Rightarrow>
          bullet_loop E data False items
            (if first then set_text processed_item else add_paragraph processed_item 0 tf))"

text \<open>The body of the \<^verbatim>\<open>try\<close> that fills the content placeholder, on the slide.\<close>

definition fill_content :: "'t engines \<Rightarrow> json \<Rightarrow> json \<Rightarrow> json \<Rightarrow> slide \<Rightarrow> exn option \<times> slide" where
  "fill_content E design_config slide_data data s =
     (case ph_position 1 (slide_placeholders s) of
        None \<Rightarrow> (Some KeyError, s)
      | Some i \<Rightarrow>
          (case py_get slide_data ''content'' (JList []) of
             Inl e \<Rightarrow> (Some e, s)
           | Inr content \<Rightarrow>
               (let p = slide_placeholders s ! i in
                if has_text_frame p then
                  (case (case content of
                           JList items \<Rightarrow> bullet_loop E data True items (clear_text (text_frame p))
                         | _ \<Rightarrow>
                           (case process_text_with_jinja E (JStr (py_str E content)) data of
                              Inl e \<Rightarrow> (Some e, clear_text (text_frame p))
                            | Inr processed_content \<Rightarrow> (None, set_text processed_content)))
                   of
                     (Some e, tf) \<Rightarrow>
                       (Some e, s\<lparr>slide_placeholders :=
                                    (slide_placeholders s)[i := p\<lparr>text_frame := tf\<rparr>]\<rparr>)
                   | (None, tf) \<Rightarrow>
                       (None, s\<lparr>slide_placeholders :=
                                 (slide_placeholders s)
                                   [i := p\<lparr>text_frame :=
                                            apply_font_styling design_config tf ''body''\<rparr>]\<rparr>))
                else (None, s))))"

text \<open>The title step of \<^verbatim>\<open>create_enhanced_content_slide\<close>; nothing here is caught.\<close>

definition fill_title :: "'t engines \<Rightarrow> json \<Rightarrow> json \<Rightarrow> json \<Rightarrow> slide \<Rightarrow> exn + slide" where
  "fill_title E design_config slide_data data s =
     (case ph_position 0 (slide_placeholders s) of
        None \<Rightarrow> Inr s
      | Some i \<Rightarrow>
          and_then (py_get slide_data ''title'' (JStr ''Slide Title'')) (\<lambda>title_text.
          and_then (process_text_with_jinja E title_text data) (\<lambda>processed_title.
          and_then (set_shape_text (Some processed_title) (slide_placeholders s ! i)) (\<lambda>p.
            Inr (s\<lparr>slide_placeholders :=
                     (slide_placeholders s)
                       [i := p\<lparr>text_frame :=
                                apply_font_styling design_config (text_frame p) ''heading''\<rparr>]\<rparr>)))))"

text \<open>\<^verbatim>\<open>create_enhanced_content_slide\<close>. The handler around the content step catches
  \<^verbatim>\<open>KeyError\<close> and \<^verbatim>\<open>IndexError\<close> only.\<close>

definition create_enhanced_content_slide ::
  "'t engines \<Rightarrow> json \<Rightarrow> presentation \<Rightarrow> json \<Rightarrow> json \<Rightarrow> exn + presentation" where
  "create_enhanced_content_slide E design_config prs slide_data data =
     and_then (create_styled_slide design_config prs 1) (\<lambda>prs1.
     and_then (fill_title E design_config slide_data data (last (slides prs1))) (\<lambda>s1.
       case fill_content E design_config slide_data data s1 of
         (None, s2) \<Rightarrow> Inr (prs1\<lparr>slides := butlast (slides prs1) @ [s2]\<rparr>)
       | (Some e, s2) \<Rightarrow>
           if e = KeyError \<or> e = IndexError
           then Inr (prs1\<lparr>slides := butlast (slides prs1) @ [s2]\<rparr>)
           else Inl e))"

subsection \<open>Slides from XML\<close>

text \<open>\<^verbatim>\<open>root.findall('.//shape')\<close>: the descendants of the root with tag \<^verbatim>\<open>shape\<close>, in
  document order.\<close>

fun descendants :: "xml \<Rightarrow> xml list" where
  "descendants (Element t a x cs) = concat (map (\<lambda>c. c # descendants c) cs)"

text \<open>The loop over the shape elements. The body case has its own handler for
  \<^verbatim>\<open>KeyError\<close> and \<^verbatim>\<open>IndexError\<close>; any other exception stops the loop.\<close>

fun bind_shapes :: "json \<Rightarrow> xml list \<Rightarrow> slide \<Rightarrow> exn option \<times> slide" where
  "bind_shapes design_config [] s = (None, s)"
| "bind_shapes design_config (element # elements) s =
     (if elem_get element ''type'' = Some ''title'' then
        (case ph_position 0 (slide_placeholders s) of
           None \<Rightarrow> bind_shapes design_config elements s
         | Some i \<Rightarrow>
             (case set_shape_text (text_of element) (slide_placeholders s ! i) of
                Inl e \<Rightarrow> (Some e, s)
              | Inr p \<Rightarrow>
                  bind_shapes design_config elements
                    (s\<lparr>slide_placeholders :=
                         (slide_placeholders s)
                           [i := p\<lparr>text_frame :=
                                    apply_font_styling design_config (text_frame p) ''title''\<rparr>]\<rparr>)))
      else if elem_get element ''type'' = Some ''body'' then
        (case ph_position 1 (slide_placeholders s) of
           None \<Rightarrow> bind_shapes design_config elements s
         | Some i \<Rightarrow>
             (case set_shape_text (text_of element) (slide_placeholders s ! i) of
                Inl e \<Rightarrow>
                  if e = KeyError \<or> e = IndexError then bind_shapes design_config elements s
                  else (Some e, s)
              | Inr p \<Rightarrow>
                  bind_shapes design_config elements
                    (s\<lparr>slide_placeholders :=
                         (slide_placeholders s)
                           [i := p\<lparr>text_frame :=
                                    apply_font_styling design_config (text_frame p) ''body''\<rparr>]\<rparr>)))
      else bind_shapes design_config elements s)"

text \<open>What follows \<^verbatim>\<open>add_slide\<close> inside the \<^verbatim>\<open>try\<close>: parsing, then the loop. A parser
  that recovers nothing returns \<^verbatim>\<open>None\<close>, on which \<^verbatim>\<open>findall\<close> is missing.\<close>

definition fill_from_xml :: "'t engines \<Rightarrow> json \<Rightarrow> string \<Rightarrow> slide \<Rightarrow> exn option \<times> slide" where
  "fill_from_xml E design_config slide_xml s =
     (case fromstring E slide_xml of
        Inl e \<Rightarrow> (Some e, s)
      | Inr None \<Rightarrow> (Some AttributeError, s)
      | Inr (Some tree_root) \<Rightarrow>
          bind_shapes design_config
            (filter (\<lambda>el. tag el = ''shape'') (descendants tree_root)) s)"

text \<open>\<^verbatim>\<open>create_slide_from_xml\<close>. The whole body is inside \<^verbatim>\<open>try ... except Exception\<close>,
  which reports and returns: the presentation keeps what was done before the exception.
  With no layout at all, the fallback \<^verbatim>\<open>prs.slide_layouts[0]\<close> raises inside the
  \<^verbatim>\<open>try\<close> before any slide is added.\<close>

definition create_slide_from_xml ::
  "'t engines \<Rightarrow> json \<Rightarrow> presentation \<Rightarrow> string \<Rightarrow> string \<Rightarrow> exn + presentation" where
  "create_slide_from_xml E design_config prs slide_xml name =
     (case (case List.find (\<lambda>l. layout_name l = name) (slide_layouts prs) of
              Some l \<Rightarrow> Inr l
            | None \<Rightarrow>
                (case slide_layouts prs of [] \<Rightarrow> Inl IndexError | l0 # ls \<Rightarrow> Inr l0))
      of
        Inl e \<Rightarrow> Inr prs
      | Inr l \<Rightarrow>
          Inr (add_slide prs (snd (fill_from_xml E design_config slide_xml (new_slide l)))))"

subsection \<open>The whole run\<close>

text \<open>The \<^verbatim>\<open>if\<close>/\<^verbatim>\<open>elif\<close> chain from slide type to layout name and template name; both
  stay empty for an unknown type.\<close>

definition slide_type_names :: "json \<Rightarrow> string \<times> string" where
  "slide_type_names slide_type =
     (if slide_type = JStr ''title_and_content''
        then (''Title and Content'', ''title_and_content_slide.xml'')
      else if slide_type = JStr ''section_header''
        then (''Section Header'', ''section_header_slide.xml'')
      else if slide_type = JStr ''two_content'' then (''Two Content'', ''two_content_slide.xml'')
      else if slide_type = JStr ''comparison'' then (''Comparison'', ''comparison_slide.xml'')
      else if slide_type = JStr ''title_only'' then (''Title Only'', ''title_only_slide.xml'')
      else if slide_type = JStr ''blank'' then (''Blank'', ''blank_slide.xml'')
      else if slide_type = JStr ''content_with_caption''
        then (''Content with Caption'', ''content_with_caption_slide.xml'')
      else if slide_type = JStr ''picture_with_caption''
        then (''Picture with Caption'', ''picture_with_caption_slide.xml'')
      else ('''', ''''))"

text \<open>The loop over \<^verbatim>\<open>presentation_data['slides']\<close>. Looking the template up, reading
  \<^verbatim>\<open>slide_info['data']\<close> and rendering are not inside any handler.\<close>

fun content_slides :: "'t engines \<Rightarrow> json \<Rightarrow> json list \<Rightarrow> presentation \<Rightarrow> exn + presentation" where
  "content_slides E design_config [] prs = Inr prs"
| "content_slides E design_config (slide_info # rest) prs =
     and_then (py_get slide_info ''type'' (JStr ''content'')) (\<lambda>slide_type.
       case slide_type_names slide_type of (lname, template_name) \<Rightarrow>
         if lname \<noteq> [] \<and> template_name \<noteq> [] then
           and_then (get_template E template_name) (\<lambda>template.
           and_then (getitem slide_info ''data'') (\<lambda>info.
           and_then (render E template info) (\<lambda>slide_content.
           and_then (create_slide_from_xml E design_config prs slide_content lname)
             (content_slides E design_config rest))))
         else content_slides E design_config rest prs)"

text \<open>The title slide, made when \<^verbatim>\<open>'title_slide' in presentation_data\<close>; then
  \<^verbatim>\<open>generate_enhanced_presentation\<close> from the loaded template \<open>prs\<close> to the presentation
  that is saved; \<open>Inl\<close> is an exception that leaves the function before
  \<^verbatim>\<open>prs.save\<close>. The slide-size step assigns \<^verbatim>\<open>prs.slide_width\<close> and
  \<^verbatim>\<open>prs.slide_height\<close> inside a handler and touches neither layouts nor slides; only its
  two membership tests, which are outside the handler, are kept.\<close>

definition title_slide_step :: "'t engines \<Rightarrow> json \<Rightarrow> json \<Rightarrow> presentation \<Rightarrow> exn + presentation" where
  "title_slide_step E design_config presentation_data prs =
     and_then (py_contains ''title_slide'' presentation_data) (\<lambda>has_title.
       if has_title then
         and_then (get_template E ''title_slide.xml'') (\<lambda>template.
         and_then (getitem presentation_data ''title_slide'') (\<lambda>info.
         and_then (render E template info) (\<lambda>slide_content.
           create_slide_from_xml E design_config prs slide_content ''Title Slide'')))
       else Inr prs)"

definition generate_enhanced_presentation ::
  "'t engines \<Rightarrow> json \<Rightarrow> presentation \<Rightarrow> json \<Rightarrow> exn + presentation" where
  "generate_enhanced_presentation E design_config prs data =
     and_then (py_get design_config ''slide_dimensions'' (JDict [])) (\<lambda>slide_dims.
     and_then (py_contains ''width'' slide_dims) (\<lambda>has_width.
     and_then (if has_width then py_contains ''height'' slide_dims else Inr False) (\<lambda>has_both.
     and_then (py_get data ''presentation_data'' (JDict [])) (\<lambda>presentation_data.
     and_then (title_slide_step E design_config presentation_data prs) (\<lambda>prs1.
     and_then (py_get presentation_data ''slides'' (JList [])) (\<lambda>slide_list.
     and_then (py_iter slide_list) (\<lambda>slide_infos.
       content_slides E design_config slide_infos prs1)))))))"

text \<open>A list item and the paragraph that shows it: the paragraph's text is the rendered
  item and its indentation level is 0.\<close>

definition item_par :: "'t engines \<Rightarrow> json \<Rightarrow> json \<Rightarrow> pptx_paragraph \<Rightarrow> bool" where
  "item_par E data item p \<longleftrightarrow>
     process_text_with_jinja E (JStr (py_str E item)) data = Inr (par_text p) \<and> par_level p = 0"

subsection \<open>Slide dimensions (\<^verbatim>\<open>design_properties_extractor.py\<close>)\<close>

text \<open>\<^verbatim>\<open>float(v)\<close> of a loaded value: an integer is rounded to a float, a float is itself,
  a boolean is 0 or 1, a string is parsed; \<^verbatim>\<open>None\<close>, lists and dictionaries raise
  \<^verbatim>\<open>TypeError\<close>.\<close>

fun py_float :: "float_arith \<Rightarrow> json \<Rightarrow> exn + rat" where
  "py_float A (JInt n) = Inr (rnd A (of_int n))"
| "py_float A (JFloat q) = Inr q"
| "py_float A (JBool b) = Inr (if b then 1 else 0)"
| "py_float A (JStr s) = float_of_str A s"
| "py_float A v = Inl TypeError"

text \<open>The dictionary stored under \<^verbatim>\<open>design_properties['slide_dimensions']\<close>.\<close>

record dimensions =
  width_inches :: rat
  width_emu :: int
  height_inches :: rat
  height_emu :: int
  aspect_ratio :: rat
  format :: string

text \<open>\<^verbatim>\<open>extract_slide_dimensions\<close> on \<^verbatim>\<open>self.template_data\<close>. The result is \<open>None\<close> when
  there is no \<^verbatim>\<open>slide_dimensions\<close> key and nothing is stored, the stored dictionary
  otherwise. The quotient \<^verbatim>\<open>width_inches / height_inches\<close> raises on a zero height;
  \<^verbatim>\<open>16/9\<close> is a division of integers and \<^verbatim>\<open>0.1\<close> the float nearest to one tenth.\<close>

definition extract_slide_dimensions :: "float_arith \<Rightarrow> json \<Rightarrow> exn + dimensions option" where
  "extract_slide_dimensions A template_data =
     and_then (py_contains ''slide_dimensions'' template_data) (\<lambda>present.
       if \<not> present then Inr None
       else
         and_then (getitem template_data ''slide_dimensions'') (\<lambda>dims.
         and_then (getitem dims ''width'') (\<lambda>width_json.
         and_then (py_float A width_json) (\<lambda>width_val.
         and_then (getitem dims ''height'') (\<lambda>height_json.
         and_then (py_float A height_json) (\<lambda>height_val.
           let w_in = (if width_val > 1000 then rnd A (width_val / 914400) else width_val);
               h_in = (if width_val > 1000 then rnd A (height_val / 914400) else height_val);
               w_emu = (if width_val > 1000 then py_trunc width_val
                        else py_trunc (rnd A (width_val * 914400)));
               h_emu = (if width_val > 1000 then py_trunc height_val
                        else py_trunc (rnd A (height_val * 914400)))
           in if h_in = 0 then Inl ZeroDivisionError
              else Inr (Some
                \<lparr>width_inches = w_in, width_emu = w_emu,
                 height_inches = h_in, height_emu = h_emu,
                 aspect_ratio = rnd A (w_in / h_in),
                 format =
                   (if \<bar>rnd A (rnd A (w_in / h_in) - rnd A (16 / 9))\<bar> < rnd A (1 / 10)
                    then ''Widescreen (16:9)'' else ''Custom'')\<rparr>)))))))"

text \<open>Template data with the given width and height.\<close>

definition template_data_of :: "json \<Rightarrow> json \<Rightarrow> json" where
  "template_data_of w h = JDict [(''slide_dimensions'', JDict [(''width'', w), (''height'', h)])]"

subsection \<open>Test data for the generator\<close>

text \<open>A template with two layouts, a design configuration with a lower-case white
  background and one with the upper-case spelling, engines whose rendering fails for one
  template and returns the template text otherwise, a content record with two slides, the
  same record without the first of them, and the data of a bullet slide.\<close>

definition title_ph :: placeholder where
  "title_ph = \<lparr>ph_idx = 0, has_text_frame = True,
               text_frame = [\<lparr>par_runs = [], par_level = 0\<rparr>]\<rparr>"

definition body_ph :: placeholder where
  "body_ph = \<lparr>ph_idx = 1, has_text_frame = True,
              text_frame = [\<lparr>par_runs = runs_of ''Click to add text'', par_level = 1\<rparr>]\<rparr>"

definition template_example :: presentation where
  "template_example =
     \<lparr>slide_layouts =
        [\<lparr>layout_name = ''Title Slide'', layout_placeholders = [title_ph, body_ph]\<rparr>,
         \<lparr>layout_name = ''Title and Content'', layout_placeholders = [title_ph, body_ph]\<rparr>],
      slides = []\<rparr>"

definition design_lower_white :: json where
  "design_lower_white = JDict [(''color_scheme'', JDict [(''background'', JStr ''#ffffff'')])]"

definition design_upper_white :: json where
  "design_upper_white = JDict [(''color_scheme'', JDict [(''background'', JStr ''#FFFFFF'')])]"

definition engines_example :: "string engines" where
  "engines_example =
     \<lparr>from_string = (\<lambda>v. case v of JStr s \<Rightarrow> Inr s | _ \<Rightarrow> Inl TypeError),
      get_template = (\<lambda>n. Inr n),
      render = (\<lambda>t ctx. if t = ''blank_slide.xml'' then Inl (TemplateError t) else Inr t),
      fromstring = (\<lambda>s. Inr (Some (Element ''slide'' [] None []))),
      repr_of = (\<lambda>v. ''?'')\<rparr>"

definition two_slides_example :: json where
  "two_slides_example =
     JDict [(''presentation_data'',
       JDict [(''slides'',
         JList [JDict [(''type'', JStr ''blank''), (''data'', JDict [])],
                JDict [(''type'', JStr ''title_only''),
                       (''data'', JDict [(''title'', JStr ''Thanks'')])]])])]"

definition second_slide_example :: json where
  "second_slide_example =
     JDict [(''presentation_data'',
       JDict [(''slides'',
         JList [JDict [(''type'', JStr ''title_only''),
                       (''data'', JDict [(''title'', JStr ''Thanks'')])]])])]"

definition bullets_example :: json where
  "bullets_example =
     JDict [(''title'', JStr ''Benefits''),
            (''content'', JList [JStr ''zeta'', JStr ''alpha'', JStr ''mid''])]"

section \<open>Proofs\<close>

subsection \<open>Path lookup and validation\<close>

lemma py_split_not_Nil: "py_split c s \<noteq> []"
  by (induction s) (auto split: list.splits)

lemma walk_resolve_Some: "resolve v ks = Some r \<Longrightarrow> walk v ks = Inr r"
  by (induction v ks rule: resolve.induct) (auto split: option.splits)

lemma walk_resolve_None:
  "resolve v ks = None \<Longrightarrow> walk v ks = Inl KeyError \<or> walk v ks = Inl TypeError"
  by (induction v ks rule: resolve.induct) (auto split: option.splits)

lemma get_json_value_by_path_eq: "get_json_value_by_path d p = Inr (value_at d p)"
proof (cases "resolve d (py_split CHR ''.'' p)")
  case None
  from walk_resolve_None [OF this] show ?thesis
    by (auto simp: get_json_value_by_path_def value_at_def None)
next
  case (Some v)
  from walk_resolve_Some [OF this] show ?thesis
    by (simp add: get_json_value_by_path_def value_at_def Some)
qed

lemma check_placeholders_eq:
  "check_placeholders d phs errs = Inr (errs @ concat (map (placeholder_errors d) phs))"
  by (induction phs arbitrary: errs)
     (simp_all add: get_json_value_by_path_eq placeholder_errors_def)

lemma validate_loop_eq:
  "validate_loop d scs errs = Inr (errs @ concat (map (slide_errors d) scs))"
  by (induction scs arbitrary: errs)
     (simp_all add: get_json_value_by_path_eq check_placeholders_eq slide_errors_def)

lemma validate_data_structure_eq:
  "validate_data_structure cfgs d = Inr (concat (map (slide_errors d) cfgs))"
  by (simp add: validate_data_structure_def validate_loop_eq)

lemma py_split_append:
  "py_split c (a @ c # b) = py_split c a @ py_split c b"
  by (induction a) (auto split: list.splits simp: py_split_not_Nil)

lemma py_split_no_sep: "c \<notin> set s \<Longrightarrow> py_split c s = [s]"
  by (induction s) auto

lemma resolve_append:
  "resolve v (xs @ ys) = (case resolve v xs of None \<Rightarrow> None | Some w \<Rightarrow> resolve w ys)"
  by (induction v xs rule: resolve.induct) (auto split: option.splits)

lemma resolve_JNull: "resolve JNull ks = Some v \<Longrightarrow> ks = [] \<and> v = JNull"
  by (cases ks) auto

lemma block_present:
  assumes pre: "prefix (b @ ''.'') p"
    and res: "resolve d (py_split CHR ''.'' p) = Some v" and nn: "v \<noteq> JNull"
  shows "value_at d b \<noteq> JNull"
proof -
  from pre obtain r where p: "p = b @ CHR ''.'' # r"
    by (auto simp: prefix_def)
  have sp: "py_split CHR ''.'' p = py_split CHR ''.'' b @ py_split CHR ''.'' r"
    unfolding p by (rule py_split_append)
  from res obtain w where w: "resolve d (py_split CHR ''.'' b) = Some w"
    and wr: "resolve w (py_split CHR ''.'' r) = Some v"
    unfolding sp resolve_append by (auto split: option.splits)
  have "w \<noteq> JNull"
  proof
    assume "w = JNull"
    with wr resolve_JNull [of "py_split CHR ''.'' r" v] nn show False by simp
  qed
  with w show ?thesis by (simp add: value_at_def)
qed


text \<open>
  \<^bold>\<open>C1.\<close> For every content record and every dotted path, \<^verbatim>\<open>get_json_value_by_path\<close>
  returns and never raises. Where every segment of the split path is a key of the mapping
  reached so far, the result is exactly the nested value. Where a key is missing, or a
  segment is applied to a scalar, a string, a list or \<^verbatim>\<open>None\<close>, the result is \<^verbatim>\<open>None\<close>.
\<close>

theorem get_json_value_by_path_total:
  "(\<exists>v. get_json_value_by_path data p = Inr v) \<and>
   (\<forall>v. resolve data (py_split CHR ''.'' p) = Some v \<longrightarrow>
          get_json_value_by_path data p = Inr v) \<and>
   (resolve data (py_split CHR ''.'' p) = None \<longrightarrow>
          get_json_value_by_path data p = Inr JNull)"
  by (simp add: get_json_value_by_path_eq value_at_def)

theorem get_json_value_by_path_total_witness:
  "get_json_value_by_path content_example ''presentation_data.title_slide.title''
     = Inr (JStr ''Urban Farming'') \<and>
   get_json_value_by_path content_example ''presentation_data.benefits_slide.text_body''
     = Inr JNull \<and>
   get_json_value_by_path content_example ''presentation_data.title_slide.title.first''
     = Inr JNull \<and>
   get_json_value_by_path content_example ''presentation_data.title_slide.tags.0''
     = Inr JNull"
proof -
  have a: "resolve content_example (py_split CHR ''.'' ''presentation_data.title_slide.title'')
             = Some (JStr ''Urban Farming'')"
    by (simp add: content_example_def)
  have b: "resolve content_example
             (py_split CHR ''.'' ''presentation_data.benefits_slide.text_body'') = None"
    by (simp add: content_example_def)
  have c: "resolve content_example
             (py_split CHR ''.'' ''presentation_data.title_slide.title.first'') = None"
    by (simp add: content_example_def)
  have d: "resolve content_example
             (py_split CHR ''.'' ''presentation_data.title_slide.tags.0'') = None"
    by (simp add: content_example_def)
  from a b c d
    get_json_value_by_path_total [of content_example "''presentation_data.title_slide.title''"]
    get_json_value_by_path_total [of content_example "''presentation_data.benefits_slide.text_body''"]
    get_json_value_by_path_total [of content_example "''presentation_data.title_slide.title.first''"]
    get_json_value_by_path_total [of content_example "''presentation_data.title_slide.tags.0''"]
  show ?thesis by blast
qed

text \<open>
  \<^bold>\<open>C2.\<close> For every content record, \<^verbatim>\<open>validate_data_structure\<close> returns a list of
  messages, and the list is the concatenation of what each configured slide contributes, so
  no message is dropped after the first. A configured slide key that the
  \<^verbatim>\<open>presentation_data\<close> block lacks gives the message
  \<^verbatim>\<open>Missing slide data for: <key>\<close>, which names the key. A placeholder of type
  \<^verbatim>\<open>TABLE\<close> or \<^verbatim>\<open>BULLET_LIST\<close> whose path resolves to a value that is not a list gives
  the matching \<^verbatim>\<open>must be a list\<close> message for that path. Placeholder paths lie under their
  slide's block, \<^verbatim>\<open>presentation_data.<slide_key>.<field>\<close>, as in the default configuration
  and in the record layout of the specification; a value is what the lookup reports as
  present, that is, not \<^verbatim>\<open>None\<close>.
\<close>

theorem validate_data_structure_collects:
  "\<exists>errs. validate_data_structure cfgs data = Inr errs \<and>
     errs = concat (map (slide_errors data) cfgs) \<and>
     (\<forall>sc \<in> set cfgs.
        CHR ''.'' \<notin> set (slide_key sc) \<and>
        resolve data [''presentation_data'', slide_key sc] = None \<longrightarrow>
        (''Missing slide data for: '' @ slide_key sc) \<in> set errs) \<and>
     (\<forall>sc \<in> set cfgs. \<forall>ph \<in> set (placeholders sc). \<forall>v.
        prefix (''presentation_data.'' @ slide_key sc @ ''.'') (json_path ph) \<and>
        resolve data (py_split CHR ''.'' (json_path ph)) = Some v \<and>
        v \<noteq> JNull \<and> \<not> isinstance_list v \<longrightarrow>
        (content_type ph = TABLE \<longrightarrow>
           (''Table data must be a list: '' @ json_path ph) \<in> set errs) \<and>
        (content_type ph = BULLET_LIST \<longrightarrow>
           (''Bullet list data must be a list: '' @ json_path ph) \<in> set errs))"
proof -
  let ?errs = "concat (map (slide_errors data) cfgs)"
  have A: "(''Missing slide data for: '' @ slide_key sc) \<in> set ?errs"
    if sc: "sc \<in> set cfgs" and nodot: "CHR ''.'' \<notin> set (slide_key sc)"
      and miss: "resolve data [''presentation_data'', slide_key sc] = None" for sc
  proof -
    have "py_split CHR ''.'' (''presentation_data.'' @ slide_key sc)
            = [''presentation_data'', slide_key sc]"
      using py_split_append [of "CHR ''.''" "''presentation_data''" "slide_key sc"]
        py_split_no_sep [OF nodot] by simp
    with miss have "value_at data (''presentation_data.'' @ slide_key sc) = JNull"
      by (simp add: value_at_def)
    then have "slide_errors data sc = [''Missing slide data for: '' @ slide_key sc]"
      by (simp add: slide_errors_def)
    with sc show ?thesis by force
  qed
  have B: "(content_type ph = TABLE \<longrightarrow>
              (''Table data must be a list: '' @ json_path ph) \<in> set ?errs) \<and>
           (content_type ph = BULLET_LIST \<longrightarrow>
              (''Bullet list data must be a list: '' @ json_path ph) \<in> set ?errs)"
    if sc: "sc \<in> set cfgs" and ph: "ph \<in> set (placeholders sc)"
      and pre: "prefix (''presentation_data.'' @ slide_key sc @ ''.'') (json_path ph)"
      and res: "resolve data (py_split CHR ''.'' (json_path ph)) = Some v"
      and nn: "v \<noteq> JNull" and nl: "\<not> isinstance_list v" for sc ph v
  proof -
    have "value_at data (''presentation_data.'' @ slide_key sc) \<noteq> JNull"
      using block_present [of "''presentation_data.'' @ slide_key sc" "json_path ph" data v]
        pre res nn by simp
    then have se: "slide_errors data sc = concat (map (placeholder_errors data) (placeholders sc))"
      by (simp add: slide_errors_def)
    have va: "value_at data (json_path ph) = v"
      using res by (simp add: value_at_def)
    have "content_type ph = TABLE \<Longrightarrow>
            placeholder_errors data ph = [''Table data must be a list: '' @ json_path ph]"
      and "content_type ph = BULLET_LIST \<Longrightarrow>
            placeholder_errors data ph = [''Bullet list data must be a list: '' @ json_path ph]"
      using va nn nl by (simp_all add: placeholder_errors_def)
    with sc ph se show ?thesis by force
  qed
  show ?thesis
    using A B by (simp add: validate_data_structure_eq) blast
qed

lemma default_config_paths_nested:
  "\<forall>sc \<in> set create_default_config. \<forall>ph \<in> set (placeholders sc).
     CHR ''.'' \<notin> set (slide_key sc) \<and>
     prefix (''presentation_data.'' @ slide_key sc @ ''.'') (json_path ph)"
  by (simp add: create_default_config_def mk_placeholder_def)

theorem validate_data_structure_collects_witness:
  "(\<exists>errs. validate_data_structure create_default_config content_example = Inr errs \<and>
      ''Missing slide data for: benefits_slide'' \<in> set errs \<and>
      ''Table data must be a list: presentation_data.impact_slide.table_data'' \<in> set errs) \<and>
   (\<exists>errs. validate_data_structure create_default_config content_example2 = Inr errs \<and>
      ''Bullet list data must be a list: presentation_data.benefits_slide.text_body''
         \<in> set errs)"
proof -
  let ?b = "create_default_config ! 1" and ?i = "create_default_config ! 2"
  let ?pb = "placeholders ?b ! 1" and ?pi = "placeholders ?i ! 1"
  have mem: "?b \<in> set create_default_config" "?i \<in> set create_default_config"
    "?pb \<in> set (placeholders ?b)" "?pi \<in> set (placeholders ?i)"
    by (simp_all add: create_default_config_def)
  have keys: "slide_key ?b = ''benefits_slide''" "slide_key ?i = ''impact_slide''"
    "json_path ?pb = ''presentation_data.benefits_slide.text_body''"
    "json_path ?pi = ''presentation_data.impact_slide.table_data''"
    "content_type ?pb = BULLET_LIST" "content_type ?pi = TABLE"
    by (simp_all add: create_default_config_def mk_placeholder_def)
  have miss: "CHR ''.'' \<notin> set (slide_key ?b) \<and>
      resolve content_example [''presentation_data'', slide_key ?b] = None"
    unfolding keys by (simp add: content_example_def)
  have tab: "prefix (''presentation_data.'' @ slide_key ?i @ ''.'') (json_path ?pi) \<and>
      resolve content_example (py_split CHR ''.'' (json_path ?pi)) = Some (JStr ''n/a'') \<and>
      JStr ''n/a'' \<noteq> JNull \<and> \<not> isinstance_list (JStr ''n/a'')"
    unfolding keys by (simp add: content_example_def)
  have bul: "prefix (''presentation_data.'' @ slide_key ?b @ ''.'') (json_path ?pb) \<and>
      resolve content_example2 (py_split CHR ''.'' (json_path ?pb)) = Some (JStr ''fresh food'') \<and>
      JStr ''fresh food'' \<noteq> JNull \<and> \<not> isinstance_list (JStr ''fresh food'')"
    unfolding keys by (simp add: content_example2_def)
  from validate_data_structure_collects [of create_default_config content_example]
  obtain e1 where e1: "validate_data_structure create_default_config content_example = Inr e1"
    and "(''Missing slide data for: '' @ slide_key ?b) \<in> set e1"
    and "(''Table data must be a list: '' @ json_path ?pi) \<in> set e1"
    using mem miss tab keys(6) by blast
  moreover
  from validate_data_structure_collects [of create_default_config content_example2]
  obtain e2 where "validate_data_structure create_default_config content_example2 = Inr e2"
    and "(''Bullet list data must be a list: '' @ json_path ?pb) \<in> set e2"
    using mem bul keys(5) by blast
  ultimately show ?thesis
    unfolding keys by auto
qed

text \<open>
  \<^bold>\<open>C10.\<close> When the data block of a configured slide is absent from the content
  record, that slide contributes exactly one message, the missing-slide-data one, between
  the messages of the slides before it and those of the slides after it: its placeholders
  are not checked. No \<^verbatim>\<open>Missing data for path\<close> message is reported for a placeholder path
  of that slide, provided no other slide uses the same path.
\<close>

theorem validate_missing_block_single_error:
  assumes "resolve data (py_split CHR ''.'' (''presentation_data.'' @ slide_key sc)) = None"
  shows "\<exists>before after.
     validate_data_structure pre data = Inr before \<and>
     validate_data_structure post data = Inr after \<and>
     validate_data_structure (pre @ sc # post) data =
       Inr (before @ [''Missing slide data for: '' @ slide_key sc] @ after) \<and>
     (\<forall>ph \<in> set (placeholders sc).
        (\<forall>sc' \<in> set (pre @ post). \<forall>ph' \<in> set (placeholders sc').
           json_path ph' \<noteq> json_path ph) \<longrightarrow>
        (''Missing data for path: '' @ json_path ph)
          \<notin> set (before @ [''Missing slide data for: '' @ slide_key sc] @ after))"
proof -
  have se: "slide_errors data sc = [''Missing slide data for: '' @ slide_key sc]"
    using assms by (simp add: slide_errors_def value_at_def)
  have other: "(''Missing data for path: '' @ p) \<notin> set (slide_errors data sc')"
    if "\<forall>ph' \<in> set (placeholders sc'). json_path ph' \<noteq> p" for sc' p
    using that by (auto simp: slide_errors_def placeholder_errors_def split: if_splits)
  have others: "(''Missing data for path: '' @ p) \<notin> set (concat (map (slide_errors data) scs))"
    if "\<forall>sc' \<in> set scs. \<forall>ph' \<in> set (placeholders sc'). json_path ph' \<noteq> p" for scs p
  proof
    assume "(''Missing data for path: '' @ p) \<in> set (concat (map (slide_errors data) scs))"
    then obtain sc' where "sc' \<in> set scs"
      and "(''Missing data for path: '' @ p) \<in> set (slide_errors data sc')"
      by auto
    with that other [of sc' p] show False by blast
  qed
  have "(''Missing data for path: '' @ json_path ph)
          \<notin> set (concat (map (slide_errors data) pre) @
                 [''Missing slide data for: '' @ slide_key sc] @
                 concat (map (slide_errors data) post))"
    if h: "\<forall>sc' \<in> set (pre @ post). \<forall>ph' \<in> set (placeholders sc'). json_path ph' \<noteq> json_path ph"
    for ph :: PlaceholderMapping
  proof -
    from h have "\<forall>sc' \<in> set pre. \<forall>ph' \<in> set (placeholders sc'). json_path ph' \<noteq> json_path ph"
      by auto
    then have "(''Missing data for path: '' @ json_path ph)
                 \<notin> set (concat (map (slide_errors data) pre))"
      by (rule others)
    moreover
    from h have "\<forall>sc' \<in> set post. \<forall>ph' \<in> set (placeholders sc'). json_path ph' \<noteq> json_path ph"
      by auto
    then have "(''Missing data for path: '' @ json_path ph)
                 \<notin> set (concat (map (slide_errors data) post))"
      by (rule others)
    moreover have "''Missing data for path: '' @ json_path ph
                     \<noteq> ''Missing slide data for: '' @ slide_key sc"
      by simp
    ultimately show ?thesis
      by (simp only: set_append set_simps Un_iff insert_iff empty_iff) blast
  qed
  then show ?thesis
    by (simp add: validate_data_structure_eq se)
qed

theorem validate_missing_block_single_error_witness:
  "validate_data_structure create_default_config content_example =
     Inr [''Missing slide data for: benefits_slide'',
          ''Table data must be a list: presentation_data.impact_slide.table_data''] \<and>
   ''Missing data for path: presentation_data.benefits_slide.text_body''
     \<notin> set [''Missing slide data for: benefits_slide'',
          ''Table data must be a list: presentation_data.impact_slide.table_data'']"
proof -
  let ?b = "create_default_config ! 1"
  have cfg: "create_default_config = [create_default_config ! 0] @ ?b # [create_default_config ! 2]"
    by (simp add: create_default_config_def)
  have keys: "slide_key ?b = ''benefits_slide''"
    by (simp add: create_default_config_def)
  have miss: "resolve content_example (py_split CHR ''.'' (''presentation_data.'' @ slide_key ?b)) = None"
    unfolding keys by (simp add: content_example_def)
  have pre: "validate_data_structure [create_default_config ! 0] content_example = Inr []"
    by (simp add: validate_data_structure_def create_default_config_def mk_placeholder_def
       get_json_value_by_path_def content_example_def)
  have post: "validate_data_structure [create_default_config ! 2] content_example =
      Inr [''Table data must be a list: presentation_data.impact_slide.table_data'']"
    by (simp add: validate_data_structure_def create_default_config_def mk_placeholder_def
       get_json_value_by_path_def content_example_def)
  have ph: "placeholders ?b ! 1 \<in> set (placeholders ?b)"
    "json_path (placeholders ?b ! 1) = ''presentation_data.benefits_slide.text_body''"
    by (simp_all add: create_default_config_def mk_placeholder_def)
  have distinct: "\<forall>sc' \<in> set ([create_default_config ! 0] @ [create_default_config ! 2]).
      \<forall>ph' \<in> set (placeholders sc'). json_path ph' \<noteq> json_path (placeholders ?b ! 1)"
    by (simp add: create_default_config_def mk_placeholder_def)
  from validate_missing_block_single_error
    [OF miss, of "[create_default_config ! 0]" "[create_default_config ! 2]"]
  obtain before after where
    b: "validate_data_structure [create_default_config ! 0] content_example = Inr before"
    and a: "validate_data_structure [create_default_config ! 2] content_example = Inr after"
    and whole: "validate_data_structure ([create_default_config ! 0] @ ?b # [create_default_config ! 2])
        content_example = Inr (before @ [''Missing slide data for: '' @ slide_key ?b] @ after)"
    and none: "\<forall>ph \<in> set (placeholders ?b).
        (\<forall>sc' \<in> set ([create_default_config ! 0] @ [create_default_config ! 2]).
           \<forall>ph' \<in> set (placeholders sc'). json_path ph' \<noteq> json_path ph) \<longrightarrow>
        (''Missing data for path: '' @ json_path ph)
          \<notin> set (before @ [''Missing slide data for: '' @ slide_key ?b] @ after)"
    by blast
  from b pre have before: "before = []" by simp
  from a post have after:
    "after = [''Table data must be a list: presentation_data.impact_slide.table_data'']"
    by simp
  from none ph(1) distinct
  have "(''Missing data for path: '' @ json_path (placeholders ?b ! 1))
          \<notin> set (before @ [''Missing slide data for: '' @ slide_key ?b] @ after)"
    by blast
  with whole show ?thesis
    unfolding cfg [symmetric] keys ph(2) before after by simp
qed

subsection \<open>Slide dimensions of the template\<close>

text \<open>
  \<^bold>\<open>C9.\<close> For every presentation document that parses, \<^verbatim>\<open>get_slide_dimensions\<close>
  returns and does not raise. When the tree_root has no slide-size child the result is the
  empty dictionary, with neither a width nor a height key. Otherwise the result maps
  \<^verbatim>\<open>width\<close> and \<^verbatim>\<open>height\<close> to the \<^verbatim>\<open>cx\<close> and \<^verbatim>\<open>cy\<close> attributes of the first
  slide-size child.
\<close>

theorem get_slide_dimensions_absent_or_attributes:
  assumes "ET_parse f = Inr tree_root"
  shows "((\<forall>c \<in> set (children tree_root). tag c \<noteq> sldSz_tag) \<longrightarrow>
            get_slide_dimensions ET_parse f = Inr [] \<and>
            map_of [] ''width'' = (None :: string option option) \<and>
            map_of [] ''height'' = (None :: string option option)) \<and>
         (\<forall>before e after.
            children tree_root = before @ e # after \<and> tag e = sldSz_tag \<and>
            (\<forall>c \<in> set before. tag c \<noteq> sldSz_tag) \<longrightarrow>
            get_slide_dimensions ET_parse f =
              Inr [(''width'', map_of (attrib e) ''cx''), (''height'', map_of (attrib e) ''cy'')])"
proof (intro conjI impI allI)
  assume "\<forall>c \<in> set (children tree_root). tag c \<noteq> sldSz_tag"
  then have "find_child sldSz_tag tree_root = None"
    by (simp add: find_child_def find_None_iff)
  with assms show "get_slide_dimensions ET_parse f = Inr []"
    by (simp add: get_slide_dimensions_def)
next
  fix before e after
  assume h: "children tree_root = before @ e # after \<and> tag e = sldSz_tag \<and>
    (\<forall>c \<in> set before. tag c \<noteq> sldSz_tag)"
  then have "find_child sldSz_tag tree_root = Some e"
    by (auto simp: find_child_def find_Some_iff nth_append
        intro!: exI [of _ "length before"])
  with assms show "get_slide_dimensions ET_parse f =
      Inr [(''width'', map_of (attrib e) ''cx''), (''height'', map_of (attrib e) ''cy'')]"
    by (simp add: get_slide_dimensions_def elem_get_def)
qed simp_all

theorem get_slide_dimensions_absent_or_attributes_witness:
  "get_slide_dimensions parse_example ''bare.xml'' = Inr [] \<and>
   get_slide_dimensions parse_example ''presentation.xml'' =
     Inr [(''width'', Some ''12192000''), (''height'', Some ''6858000'')]"
proof -
  have p1: "parse_example ''bare.xml'' =
      Inr (Element ''{http://schemas.openxmlformats.org/presentationml/2006/main}presentation''
             [] None [])"
    by (simp add: parse_example_def)
  have p2: "parse_example ''presentation.xml'' = Inr presentation_xml_example"
    by (simp add: parse_example_def)
  have c2: "children presentation_xml_example =
      [Element ''{http://schemas.openxmlformats.org/presentationml/2006/main}sldMasterIdLst''
          [] None []] @
      Element ''{http://schemas.openxmlformats.org/presentationml/2006/main}sldSz''
          [(''cx'', ''12192000''), (''cy'', ''6858000'')] None [] # [] \<and>
      tag (Element ''{http://schemas.openxmlformats.org/presentationml/2006/main}sldSz''
          [(''cx'', ''12192000''), (''cy'', ''6858000'')] None []) = sldSz_tag \<and>
      (\<forall>c \<in> set [Element
          ''{http://schemas.openxmlformats.org/presentationml/2006/main}sldMasterIdLst''
          [] None []]. tag c \<noteq> sldSz_tag)"
    by (simp add: presentation_xml_example_def sldSz_tag_def)
  from get_slide_dimensions_absent_or_attributes
    [where ET_parse = parse_example and f = "''bare.xml''", OF p1]
  have "get_slide_dimensions parse_example ''bare.xml'' = Inr []"
    by simp
  moreover
  from get_slide_dimensions_absent_or_attributes
    [where ET_parse = parse_example and f = "''presentation.xml''", OF p2] c2
  have "get_slide_dimensions parse_example ''presentation.xml'' =
     Inr [(''width'', map_of [(''cx'', ''12192000''), (''cy'', ''6858000'')] ''cx''),
          (''height'', map_of [(''cx'', ''12192000''), (''cy'', ''6858000'')] ''cy'')]"
    by (metis xml.sel(2))
  ultimately show ?thesis by simp
qed

subsection \<open>Colour categories\<close>

lemma hex_digit_not_special:
  assumes "hex_digit c = Some d"
  shows "\<not> is_space c" "c \<noteq> CHR ''-''" "c \<noteq> CHR ''+''" "c \<noteq> CHR ''#''"
  using assms by (auto simp: hex_digit_def is_space_def Let_def split: if_splits)

lemma py_int16_two:
  assumes a: "hex_digit a = Some x" and b: "hex_digit b = Some y"
  shows "py_int16 [a, b] = Inr (16 * x + y)"
  using hex_digit_not_special [OF a] hex_digit_not_special [OF b] a b
  by (simp add: py_int16_def)

lemma hex_to_rgb_six:
  assumes len: "length hex = 6" and dig: "\<forall>c \<in> set hex. hex_digit c \<noteq> None"
  shows "\<exists>rgb. hex_to_rgb hex = Inr rgb \<and> hex_to_rgb (CHR ''#'' # hex) = Inr rgb"
proof -
  from len obtain a b c d e f where hex: "hex = [a, b, c, d, e, f]"
    by (auto simp: length_Suc_conv eval_nat_numeral)
  from dig obtain va vb vc vd ve vf where v: "hex_digit a = Some va" "hex_digit b = Some vb"
    "hex_digit c = Some vc" "hex_digit d = Some vd" "hex_digit e = Some ve"
    "hex_digit f = Some vf"
    unfolding hex by auto
  have "a \<noteq> CHR ''#''" using hex_digit_not_special(4) [OF v(1)] .
  then show ?thesis
    unfolding hex
    by (simp add: hex_to_rgb_def py_int16_two [OF v(1) v(2)] py_int16_two [OF v(3) v(4)]
        py_int16_two [OF v(5) v(6)])
qed

text \<open>
  \<^bold>\<open>C4.\<close> For every colour of six hexadecimal digits, with or without the leading
  \<^verbatim>\<open>#\<close>, \<^verbatim>\<open>categorize_color\<close> returns an analysis whose hue, saturation and lightness
  are the HSL conversion of the colour and whose category follows the fixed thresholds,
  read in order: lightness above 90 is \<^verbatim>\<open>light\<close>, lightness below 20 is \<^verbatim>\<open>dark\<close>,
  then saturation below 20 is \<^verbatim>\<open>neutral\<close>, then hue 80 to 140 is
  \<^verbatim>\<open>primary_green\<close>, hue above 140 up to 200 is \<^verbatim>\<open>secondary_green\<close> (at exactly 140 the
  first range has already matched), and any other hue is \<^verbatim>\<open>accent\<close>. The result is a
  function of the HSL triple alone: any colour with the same triple gets the identical
  analysis, and so does the same colour when the function is called again.
\<close>

theorem categorize_color_thresholds:
  assumes "hex_color = hex \<or> hex_color = CHR ''#'' # hex" and "length hex = 6"
    and "\<forall>c \<in> set hex. hex_digit c \<noteq> None"
  shows "\<exists>rgb a. hex_to_rgb hex_color = Inr rgb \<and> categorize_color F hex_color = Inr a \<and>
     (hue a, saturation a, lightness a) = rgb_to_hsl F rgb \<and>
     (lightness a > 90 \<longrightarrow> category a = ''light'') \<and>
     (lightness a < 20 \<longrightarrow> category a = ''dark'') \<and>
     (20 \<le> lightness a \<and> lightness a \<le> 90 \<and> saturation a < 20 \<longrightarrow>
        category a = ''neutral'') \<and>
     (20 \<le> lightness a \<and> lightness a \<le> 90 \<and> 20 \<le> saturation a \<longrightarrow>
        (80 \<le> hue a \<and> hue a \<le> 140 \<longrightarrow> category a = ''primary_green'') \<and>
        (140 < hue a \<and> hue a \<le> 200 \<longrightarrow> category a = ''secondary_green'') \<and>
        (hue a < 80 \<or> 200 < hue a \<longrightarrow> category a = ''accent'')) \<and>
     is_green_family a = (80 \<le> hue a \<and> hue a \<le> 200) \<and>
     (\<forall>other rgb'. hex_to_rgb other = Inr rgb' \<and> rgb_to_hsl F rgb' = rgb_to_hsl F rgb \<longrightarrow>
        categorize_color F other = Inr a)"
proof -
  from hex_to_rgb_six [OF assms(2,3)] assms(1)
  obtain rgb where rgb: "hex_to_rgb hex_color = Inr rgb"
    by auto
  obtain h s l where hsl: "rgb_to_hsl F rgb = (h, s, l)"
    by (cases "rgb_to_hsl F rgb") auto
  show ?thesis
    apply (rule exI [of _ rgb])
    apply (simp add: rgb categorize_color_def hsl)
    done
qed

theorem categorize_color_thresholds_witness:
  "(\<exists>a. categorize_color exact_ops ''#ffffff'' = Inr a \<and> category a = ''light'') \<and>
   (\<exists>a. categorize_color exact_ops ''#000000'' = Inr a \<and> category a = ''dark'') \<and>
   (\<exists>a. categorize_color exact_ops ''#808080'' = Inr a \<and> category a = ''neutral'') \<and>
   (\<exists>a. categorize_color exact_ops ''#00ff00'' = Inr a \<and> category a = ''primary_green'') \<and>
   (\<exists>a. categorize_color exact_ops ''#00ffff'' = Inr a \<and> category a = ''secondary_green'') \<and>
   (\<exists>a. categorize_color exact_ops ''#ff0000'' = Inr a \<and> category a = ''accent'')"
proof -
  have light: "\<exists>a. categorize_color exact_ops ''#ffffff'' = Inr a \<and> category a = ''light''"
  proof -
    have p1: "''#ffffff'' = ''ffffff'' \<or> ''#ffffff'' = CHR ''#'' # ''ffffff''" by simp
    have p2: "length ''ffffff'' = 6" by simp
    have p3: "\<forall>c \<in> set ''ffffff''. hex_digit c \<noteq> None" by (simp add: hex_digit_def)
    have rgb: "hex_to_rgb ''#ffffff'' = Inr (255, 255, 255)" by code_simp
    have hsl: "rgb_to_hsl exact_ops (255, 255, 255) = (0, 0, 100)" by code_simp
    from categorize_color_thresholds [OF p1 p2 p3, of exact_ops]
    obtain rgb a where "hex_to_rgb ''#ffffff'' = Inr rgb"
      and "categorize_color exact_ops ''#ffffff'' = Inr a"
      and "(hue a, saturation a, lightness a) = rgb_to_hsl exact_ops rgb"
      and "lightness a > 90 \<longrightarrow> category a = ''light''"
      by blast
    with rgb hsl show ?thesis by auto
  qed
  have dark: "\<exists>a. categorize_color exact_ops ''#000000'' = Inr a \<and> category a = ''dark''"
  proof -
    have p1: "''#000000'' = ''000000'' \<or> ''#000000'' = CHR ''#'' # ''000000''" by simp
    have p2: "length ''000000'' = 6" by simp
    have p3: "\<forall>c \<in> set ''000000''. hex_digit c \<noteq> None" by (simp add: hex_digit_def)
    have rgb: "hex_to_rgb ''#000000'' = Inr (0, 0, 0)" by code_simp
    have hsl: "rgb_to_hsl exact_ops (0, 0, 0) = (0, 0, 0)" by code_simp
    from categorize_color_thresholds [OF p1 p2 p3, of exact_ops]
    obtain rgb a where "hex_to_rgb ''#000000'' = Inr rgb"
      and "categorize_color exact_ops ''#000000'' = Inr a"
      and "(hue a, saturation a, lightness a) = rgb_to_hsl exact_ops rgb"
      and "lightness a < 20 \<longrightarrow> category a = ''dark''"
      by blast
    with rgb hsl show ?thesis by auto
  qed
  have neutral: "\<exists>a. categorize_color exact_ops ''#808080'' = Inr a \<and> category a = ''neutral''"
  proof -
    have p1: "''#808080'' = ''808080'' \<or> ''#808080'' = CHR ''#'' # ''808080''" by simp
    have p2: "length ''808080'' = 6" by simp
    have p3: "\<forall>c \<in> set ''808080''. hex_digit c \<noteq> None" by (simp add: hex_digit_def)
    have rgb: "hex_to_rgb ''#808080'' = Inr (128, 128, 128)" by code_simp
    have hsl: "rgb_to_hsl exact_ops (128, 128, 128) = (0, 0, 50)" by code_simp
    from categorize_color_thresholds [OF p1 p2 p3, of exact_ops]
    obtain rgb a where "hex_to_rgb ''#808080'' = Inr rgb"
      and "categorize_color exact_ops ''#808080'' = Inr a"
      and "(hue a, saturation a, lightness a) = rgb_to_hsl exact_ops rgb"
      and "20 \<le> lightness a \<and> lightness a \<le> 90 \<and> saturation a < 20 \<longrightarrow>
        category a = ''neutral''"
      by blast
    with rgb hsl show ?thesis by auto
  qed
  have primary: "\<exists>a. categorize_color exact_ops ''#00ff00'' = Inr a \<and> category a = ''primary_green''"
  proof -
    have p1: "''#00ff00'' = ''00ff00'' \<or> ''#00ff00'' = CHR ''#'' # ''00ff00''" by simp
    have p2: "length ''00ff00'' = 6" by simp
    have p3: "\<forall>c \<in> set ''00ff00''. hex_digit c \<noteq> None" by (simp add: hex_digit_def)
    have rgb: "hex_to_rgb ''#00ff00'' = Inr (0, 255, 0)" by code_simp
    have hsl: "rgb_to_hsl exact_ops (0, 255, 0) = (120, 100, 50)" by code_simp
    from categorize_color_thresholds [OF p1 p2 p3, of exact_ops]
    obtain rgb a where "hex_to_rgb ''#00ff00'' = Inr rgb"
      and "categorize_color exact_ops ''#00ff00'' = Inr a"
      and "(hue a, saturation a, lightness a) = rgb_to_hsl exact_ops rgb"
      and "20 \<le> lightness a \<and> lightness a \<le> 90 \<and> 20 \<le> saturation a \<longrightarrow>
        (80 \<le> hue a \<and> hue a \<le> 140 \<longrightarrow> category a = ''primary_green'') \<and>
        (140 < hue a \<and> hue a \<le> 200 \<longrightarrow> category a = ''secondary_green'') \<and>
        (hue a < 80 \<or> 200 < hue a \<longrightarrow> category a = ''accent'')"
      by blast
    with rgb hsl show ?thesis by auto
  qed
  have secondary: "\<exists>a. categorize_color exact_ops ''#00ffff'' = Inr a \<and> category a = ''secondary_green''"
  proof -
    have p1: "''#00ffff'' = ''00ffff'' \<or> ''#00ffff'' = CHR ''#'' # ''00ffff''" by simp
    have p2: "length ''00ffff'' = 6" by simp
    have p3: "\<forall>c \<in> set ''00ffff''. hex_digit c \<noteq> None" by (simp add: hex_digit_def)
    have rgb: "hex_to_rgb ''#00ffff'' = Inr (0, 255, 255)" by code_simp
    have hsl: "rgb_to_hsl exact_ops (0, 255, 255) = (180, 100, 50)" by code_simp
    from categorize_color_thresholds [OF p1 p2 p3, of exact_ops]
    obtain rgb a where "hex_to_rgb ''#00ffff'' = Inr rgb"
      and "categorize_color exact_ops ''#00ffff'' = Inr a"
      and "(hue a, saturation a, lightness a) = rgb_to_hsl exact_ops rgb"
      and "20 \<le> lightness a \<and> lightness a \<le> 90 \<and> 20 \<le> saturation a \<longrightarrow>
        (80 \<le> hue a \<and> hue a \<le> 140 \<longrightarrow> category a = ''primary_green'') \<and>
        (140 < hue a \<and> hue a \<le> 200 \<longrightarrow> category a = ''secondary_green'') \<and>
        (hue a < 80 \<or> 200 < hue a \<longrightarrow> category a = ''accent'')"
      by blast
    with rgb hsl show ?thesis by auto
  qed
  have accent: "\<exists>a. categorize_color exact_ops ''#ff0000'' = Inr a \<and> category a = ''accent''"
  proof -
    have p1: "''#ff0000'' = ''ff0000'' \<or> ''#ff0000'' = CHR ''#'' # ''ff0000''" by simp
    have p2: "length ''ff0000'' = 6" by simp
    have p3: "\<forall>c \<in> set ''ff0000''. hex_digit c \<noteq> None" by (simp add: hex_digit_def)
    have rgb: "hex_to_rgb ''#ff0000'' = Inr (255, 0, 0)" by code_simp
    have hsl: "rgb_to_hsl exact_ops (255, 0, 0) = (0, 100, 50)" by code_simp
    from categorize_color_thresholds [OF p1 p2 p3, of exact_ops]
    obtain rgb a where "hex_to_rgb ''#ff0000'' = Inr rgb"
      and "categorize_color exact_ops ''#ff0000'' = Inr a"
      and "(hue a, saturation a, lightness a) = rgb_to_hsl exact_ops rgb"
      and "20 \<le> lightness a \<and> lightness a \<le> 90 \<and> 20 \<le> saturation a \<longrightarrow>
        (80 \<le> hue a \<and> hue a \<le> 140 \<longrightarrow> category a = ''primary_green'') \<and>
        (140 < hue a \<and> hue a \<le> 200 \<longrightarrow> category a = ''secondary_green'') \<and>
        (hue a < 80 \<or> 200 < hue a \<longrightarrow> category a = ''accent'')"
      by blast
    with rgb hsl show ?thesis by auto
  qed
  from light dark neutral primary secondary accent show ?thesis
    by (intro conjI)
qed

subsection \<open>Rounding to binary64\<close>

lemma pow2_powi: "pow2 e = 2 powi e"
  by (simp add: pow2_def power_int_def inverse_eq_divide power_one_over)

lemma pow2_pos: "0 < pow2 e"
  by (simp add: pow2_def)

lemma pow2_add: "pow2 (a + b) = pow2 a * pow2 b"
  by (simp add: pow2_powi power_int_add)

lemma pow2_nat: "0 \<le> e \<Longrightarrow> pow2 e = of_int (2 ^ nat e)"
  by (simp add: pow2_def)

lemma pow2_neg: "0 \<le> k \<Longrightarrow> pow2 (- k) = 1 / of_int (2 ^ nat k)"
  by (cases "k = 0") (simp_all add: pow2_def)

lemma ilog2_bounds:
  assumes "0 < a"
  shows "pow2 (ilog2 a) \<le> a \<and> a < pow2 (ilog2 a + 1)"
proof (cases "1 \<le> a")
  case True
  define m where "m = \<lfloor>a\<rfloor>"
  from True have m: "0 < m" by (simp add: m_def)
  from bitlen_bounds [OF m] have lo: "2 ^ nat (bitlen m - 1) \<le> m"
    and hi: "m < 2 ^ nat (bitlen m)" by simp_all
  from m have b1: "1 \<le> bitlen m"
    using bitlen_eq_zero_iff [of m] bitlen_nonneg [of m] by linarith
  have e: "ilog2 a = bitlen m - 1"
    using True by (simp add: ilog2_def m_def)
  have "pow2 (bitlen m - 1) = of_int (2 ^ nat (bitlen m - 1))"
    using b1 by (intro pow2_nat) simp
  also have "\<dots> \<le> of_int m" using lo by (simp only: of_int_le_iff)
  also have "\<dots> \<le> a" by (simp add: m_def)
  finally have 1: "pow2 (ilog2 a) \<le> a" by (simp add: e)
  have "a < of_int (m + 1)" unfolding m_def by linarith
  also have "\<dots> \<le> of_int (2 ^ nat (bitlen m))"
    using hi by (simp only: of_int_le_iff)
  also have "\<dots> = pow2 (bitlen m)"
    using b1 by (intro pow2_nat [symmetric]) simp
  finally have "a < pow2 (ilog2 a + 1)" by (simp add: e)
  with 1 show ?thesis by simp
next
  case False
  define b where "b = 1 / a"
  define m where "m = \<lfloor>b\<rfloor>"
  define k where "k = bitlen m - 1"
  from False assms have b: "1 < b" by (simp add: b_def)
  then have m: "0 < m" by (simp add: m_def)
  from bitlen_bounds [OF m] have lo: "2 ^ nat (bitlen m - 1) \<le> m"
    and hi: "m < 2 ^ nat (bitlen m)" by simp_all
  from m have b1: "1 \<le> bitlen m"
    using bitlen_eq_zero_iff [of m] bitlen_nonneg [of m] by linarith
  then have k0: "0 \<le> k" by (simp add: k_def)
  have "of_int (2 ^ nat k) \<le> (of_int m :: rat)"
    using lo unfolding k_def by (simp only: of_int_le_iff)
  also have "\<dots> \<le> b" by (simp add: m_def)
  finally have lob: "of_int (2 ^ nat k) \<le> b" .
  have "b < of_int (m + 1)" unfolding m_def by linarith
  also have "\<dots> \<le> of_int (2 ^ nat (k + 1))"
    using hi b1 unfolding k_def by (simp only: of_int_le_iff) simp
  finally have hib: "b < of_int (2 ^ nat (k + 1))" .
  have a_le: "a \<le> pow2 (- k)"
  proof -
    have "0 < (of_int (2 ^ nat k) :: rat)" by simp
    with lob assms have "a * of_int (2 ^ nat k) \<le> 1"
      by (simp add: b_def field_simps)
    then show ?thesis
      unfolding pow2_neg [OF k0] by (simp add: field_simps)
  qed
  have a_gt: "pow2 (- k - 1) < a"
  proof -
    have "pow2 (- k - 1) = 1 / of_int (2 ^ nat (k + 1))"
      using pow2_neg [of "k + 1"] k0 by simp
    moreover have "1 / of_int (2 ^ nat (k + 1)) < a"
      using hib assms by (simp add: b_def field_simps)
    ultimately show ?thesis by simp
  qed
  have two: "pow2 (- k + 1) = 2 * pow2 (- k)" and one: "pow2 (- k - 1 + 1) = pow2 (- k)"
    using pow2_add [of "- k" 1] by (simp_all add: pow2_def)
  show ?thesis
  proof (cases "a = pow2 (- k)")
    case True
    then have e: "ilog2 a = - k"
      using False by (simp add: ilog2_def Let_def k_def m_def b_def)
    have "a < 2 * pow2 (- k)" using True pow2_pos [of "- k"] by simp
    then have "a < pow2 (ilog2 a + 1)" unfolding e two .
    moreover have "pow2 (ilog2 a) \<le> a" unfolding e using True by simp
    ultimately show ?thesis by simp
  next
    case ne: False
    then have e: "ilog2 a = - k - 1"
      using False by (simp add: ilog2_def Let_def k_def m_def b_def)
    from ne a_le have "a < pow2 (- k)" by simp
    then have "a < pow2 (ilog2 a + 1)" unfolding e one .
    moreover have "pow2 (ilog2 a) \<le> a" unfolding e using a_gt by simp
    ultimately show ?thesis by simp
  qed
qed

lemma round_half_even_error: "\<bar>of_int (round_half_even y) - y\<bar> \<le> 1 / 2"
proof -
  have "of_int \<lfloor>y\<rfloor> \<le> y" "y < of_int \<lfloor>y\<rfloor> + 1"
    by linarith+
  then show ?thesis
    by (auto simp: round_half_even_def Let_def abs_le_iff)
qed

lemma rnd53_error: "\<bar>rnd53 x - x\<bar> \<le> \<bar>x\<bar> / 2 ^ 53"
proof (cases "x = 0")
  case True
  then show ?thesis by (simp add: rnd53_def)
next
  case False
  define a where "a = \<bar>x\<bar>"
  define e where "e = ilog2 a"
  define q where "q = pow2 (e - 52)"
  define n where "n = round_half_even (a / q)"
  from False have a: "0 < a" by (simp add: a_def)
  have q: "0 < q" by (simp add: q_def pow2_pos)
  from ilog2_bounds [OF a] have lo: "pow2 e \<le> a" by (simp add: e_def)
  have pe: "pow2 e = q * 2 ^ 52"
    using pow2_add [of "e - 52" 52] by (simp add: q_def pow2_def)
  have r: "rnd53 x = sgn x * of_int n * q"
    using False by (simp add: rnd53_def Let_def a_def e_def q_def n_def)
  have x: "x = sgn x * a"
    by (simp add: a_def mult_sgn_abs)
  have "rnd53 x - x = sgn x * (of_int n * q - a)"
    by (subst (2) x) (simp add: r algebra_simps)
  then have "\<bar>rnd53 x - x\<bar> = \<bar>of_int n * q - a\<bar>"
    using False by (simp add: abs_mult abs_sgn_eq)
  also have "\<dots> = \<bar>of_int n - a / q\<bar> * q"
  proof -
    have "of_int n * q - a = (of_int n - a / q) * q"
      using q by (simp add: field_simps)
    then show ?thesis using q by (simp add: abs_mult)
  qed
  also have "\<dots> \<le> (1 / 2) * q"
    using round_half_even_error [of "a / q"] q
    by (intro mult_right_mono) (simp_all add: n_def)
  also have "\<dots> = pow2 e / 2 ^ 53"
    by (simp add: pe)
  also have "\<dots> \<le> a / 2 ^ 53"
    using lo by (simp add: divide_right_mono)
  finally show ?thesis by (simp add: a_def)
qed

subsection \<open>Slide assembly\<close>

lemma bind_shapes_layout: "slide_layout (snd (bind_shapes d els s)) = slide_layout s"
  by (induction d els s rule: bind_shapes.induct) (auto split: option.splits sum.splits)

lemma fill_from_xml_layout: "slide_layout (snd (fill_from_xml E d x s)) = slide_layout s"
  by (auto simp: fill_from_xml_def bind_shapes_layout split: sum.splits option.splits)

lemma create_slide_from_xml_returns:
  "\<exists>prs'. create_slide_from_xml E d prs x name = Inr prs'"
  by (auto simp: create_slide_from_xml_def split: sum.splits option.splits list.splits)

text \<open>
  \<^bold>\<open>C5.\<close> \<^verbatim>\<open>create_slide_from_xml\<close> never raises, whatever layout name is requested. When
  the name matches no layout of a template that has layouts, the slide is made from the
  layout at index 0 and is appended to the presentation; requesting
  \<^verbatim>\<open>Nonexistent Layout\<close> gives a slide on layout 0.
\<close>

theorem create_slide_from_xml_fallback:
  "(\<exists>prs'. create_slide_from_xml E design_config prs slide_xml name = Inr prs') \<and>
   ((\<forall>l \<in> set (slide_layouts prs). layout_name l \<noteq> name) \<and> slide_layouts prs \<noteq> [] \<longrightarrow>
      (\<exists>s. create_slide_from_xml E design_config prs slide_xml name =
              Inr (prs\<lparr>slides := slides prs @ [s]\<rparr>) \<and>
           slide_layout s = slide_layouts prs ! 0))"
proof (intro conjI impI)
  show "\<exists>prs'. create_slide_from_xml E design_config prs slide_xml name = Inr prs'"
    by (rule create_slide_from_xml_returns)
next
  assume h: "(\<forall>l \<in> set (slide_layouts prs). layout_name l \<noteq> name) \<and> slide_layouts prs \<noteq> []"
  then have none: "List.find (\<lambda>l. layout_name l = name) (slide_layouts prs) = None"
    by (simp add: find_None_iff)
  from h obtain l0 ls where ls: "slide_layouts prs = l0 # ls"
    by (cases "slide_layouts prs") auto
  let ?s = "snd (fill_from_xml E design_config slide_xml (new_slide l0))"
  have "create_slide_from_xml E design_config prs slide_xml name =
          Inr (prs\<lparr>slides := slides prs @ [?s]\<rparr>)"
    unfolding create_slide_from_xml_def none by (simp add: ls add_slide_def)
  moreover have "slide_layout ?s = slide_layouts prs ! 0"
    by (simp add: fill_from_xml_layout new_slide_def ls)
  ultimately show "\<exists>s. create_slide_from_xml E design_config prs slide_xml name =
              Inr (prs\<lparr>slides := slides prs @ [s]\<rparr>) \<and>
           slide_layout s = slide_layouts prs ! 0"
    by blast
qed

theorem create_slide_from_xml_fallback_witness:
  "\<exists>s. create_slide_from_xml engines_example (JDict []) template_example ''<slide/>''
            ''Nonexistent Layout''
          = Inr (template_example\<lparr>slides := slides template_example @ [s]\<rparr>) \<and>
       slide_layout s = slide_layouts template_example ! 0 \<and>
       layout_name (slide_layouts template_example ! 0) = ''Title Slide''"
proof -
  have h: "(\<forall>l \<in> set (slide_layouts template_example). layout_name l \<noteq> ''Nonexistent Layout'') \<and>
      slide_layouts template_example \<noteq> []"
    by (simp add: template_example_def)
  have n: "layout_name (slide_layouts template_example ! 0) = ''Title Slide''"
    by (simp add: template_example_def)
  from create_slide_from_xml_fallback
    [of engines_example "JDict []" template_example "''<slide/>''" "''Nonexistent Layout''"] h n
  show ?thesis by blast
qed

lemma white_lower_rgb: "hex_to_rgb ''#ffffff'' = Inr (255, 255, 255)"
  by code_simp

text \<open>
  \<^bold>\<open>C8.\<close> The background of a new slide is filled when the colour scheme has a
  background value that is set and differs from the string \<^verbatim>\<open>#FFFFFF\<close>. The comparison is
  by spelling: the design configuration whose background is \<^verbatim>\<open>#ffffff\<close>, pure white as the
  brand guidelines of the extractor write it, gets a solid white fill, while the
  upper-case spelling gets none.
\<close>

theorem styled_slide_lowercase_white_is_filled:
  "(\<exists>prs'. create_styled_slide design_lower_white template_example 0 = Inr prs' \<and>
       background (last (slides prs')) = SolidFill (Some (255, 255, 255))) \<and>
   (\<exists>prs'. create_styled_slide design_upper_white template_example 0 = Inr prs' \<and>
       background (last (slides prs')) = NoFill)"
  by (simp add: create_styled_slide_def py_index_def template_example_def design_lower_white_def
      design_upper_white_def add_slide_def style_background_def new_slide_def and_then_def
      white_lower_rgb RGBColor_def)

lemma and_then_Inr [simp]: "and_then (Inr v) f = f v"
  by (simp add: and_then_def)

lemma and_then_Inl [simp]: "and_then (Inl e) f = Inl e"
  by (simp add: and_then_def)

lemma content_slides_append:
  "content_slides E d (pre @ rest) prs =
     and_then (content_slides E d pre prs) (content_slides E d rest)"
proof (induction pre arbitrary: prs)
  case Nil
  show ?case by simp
next
  case (Cons a pre)
  show ?case
    by (auto simp: Cons and_then_def split: sum.splits prod.splits)
qed

lemma slide_type_names_both: "slide_type_names t = (l, n) \<Longrightarrow> l \<noteq> [] \<Longrightarrow> n \<noteq> []"
  by (auto simp: slide_type_names_def split: if_splits)

lemma py_contains_other: "py_contains k v = Inr b \<Longrightarrow> \<exists>b'. py_contains k' v = Inr b'"
  by (cases v) auto

text \<open>
  \<^bold>\<open>C6.\<close> The claim that a failure of the text-substitution engine aborts only the
  slide being rendered does not hold: with two content slides of which the first fails to
  render, the run ends with the engine's exception and no presentation, although the
  second slide alone is produced without trouble.
\<close>

theorem jinja_failure_stops_the_run:
  "generate_enhanced_presentation engines_example (JDict []) template_example two_slides_example
     = Inl (TemplateError ''blank_slide.xml'') \<and>
   (\<exists>prs'. generate_enhanced_presentation engines_example (JDict []) template_example
              second_slide_example = Inr prs' \<and> length (slides prs') = 1)"
  by (simp add: generate_enhanced_presentation_def title_slide_step_def two_slides_example_def
      second_slide_example_def engines_example_def slide_type_names_def
      create_slide_from_xml_def template_example_def add_slide_def)

text \<open>
  \<^bold>\<open>C6, as amended.\<close> During slide assembly a failure of the engine while rendering one
  slide's template is not caught: when everything before it succeeded, the exception
  leaves \<^verbatim>\<open>generate_enhanced_presentation\<close>, so neither that slide nor the slides after it
  are produced and nothing is saved.
\<close>

theorem jinja_failure_aborts_run:
  assumes "py_get design_config ''slide_dimensions'' (JDict []) = Inr slide_dims"
    and "py_contains ''width'' slide_dims = Inr has_width"
    and "py_get data ''presentation_data'' (JDict []) = Inr presentation_data"
    and "title_slide_step E design_config presentation_data prs = Inr prs0"
    and "py_get presentation_data ''slides'' (JList []) = Inr (JList (pre @ slide_info # rest))"
    and "content_slides E design_config pre prs0 = Inr prs1"
    and "py_get slide_info ''type'' (JStr ''content'') = Inr slide_type"
    and "slide_type_names slide_type = (lname, template_name)" and "lname \<noteq> []"
    and "get_template E template_name = Inr template"
    and "getitem slide_info ''data'' = Inr info"
    and "render E template info = Inl e"
  shows "generate_enhanced_presentation E design_config prs data = Inl e"
proof -
  from assms(2) obtain b where b: "py_contains ''height'' slide_dims = Inr b"
    using py_contains_other by blast
  have tn: "template_name \<noteq> []"
    using slide_type_names_both [OF assms(8,9)] .
  have one: "content_slides E design_config (slide_info # rest) prs1 = Inl e"
    by (simp add: assms(7-12) tn)
  have "content_slides E design_config (pre @ slide_info # rest) prs0 = Inl e"
    by (simp only: content_slides_append assms(6) and_then_Inr one)
  then show ?thesis
    by (simp add: generate_enhanced_presentation_def assms(1-5) b)
qed

theorem jinja_failure_aborts_run_witness:
  "generate_enhanced_presentation engines_example (JDict []) template_example two_slides_example
     = Inl (TemplateError ''blank_slide.xml'')"
proof -
  let ?pd = "JDict [(''slides'',
         JList [JDict [(''type'', JStr ''blank''), (''data'', JDict [])],
                JDict [(''type'', JStr ''title_only''),
                       (''data'', JDict [(''title'', JStr ''Thanks'')])]])]"
  let ?info = "JDict [(''type'', JStr ''blank''), (''data'', JDict [])]"
  have 1: "py_get (JDict []) ''slide_dimensions'' (JDict []) = Inr (JDict [])" by simp
  have 2: "py_contains ''width'' (JDict []) = Inr False" by simp
  have 3: "py_get two_slides_example ''presentation_data'' (JDict []) = Inr ?pd"
    by (simp add: two_slides_example_def)
  have 4: "title_slide_step engines_example (JDict []) ?pd template_example = Inr template_example"
    by (simp add: title_slide_step_def)
  have 5: "py_get ?pd ''slides'' (JList []) =
      Inr (JList ([] @ ?info # [JDict [(''type'', JStr ''title_only''),
                       (''data'', JDict [(''title'', JStr ''Thanks'')])]]))"
    by simp
  have 6: "content_slides engines_example (JDict []) [] template_example = Inr template_example"
    by simp
  have 7: "py_get ?info ''type'' (JStr ''content'') = Inr (JStr ''blank'')" by simp
  have 8: "slide_type_names (JStr ''blank'') = (''Blank'', ''blank_slide.xml'')"
    by (simp add: slide_type_names_def)
  have 9: "''Blank'' \<noteq> []" by simp
  have 10: "get_template engines_example ''blank_slide.xml'' = Inr ''blank_slide.xml''"
    by (simp add: engines_example_def)
  have 11: "getitem ?info ''data'' = Inr (JDict [])" by simp
  have 12: "render engines_example ''blank_slide.xml'' (JDict []) =
      Inl (TemplateError ''blank_slide.xml'')"
    by (simp add: engines_example_def)
  show ?thesis
    by (rule jinja_failure_aborts_run [OF 1 2 3 4 5 6 7 8 9 10 11 12])
qed

subsection \<open>Bullet lists\<close>

lemma style_run_text: "run_text (snd (style_run d f z r)) = run_text r"
  by (simp add: style_run_def Let_def split: sum.splits)

lemma style_runs_text: "map run_text (snd (style_runs d f z rs)) = map run_text rs"
proof (induction rs)
  case Nil
  show ?case by simp
next
  case (Cons r rs)
  have "run_text (snd (style_run d f z r)) = run_text r"
    by (rule style_run_text)
  with Cons show ?case
    by (auto split: prod.splits option.splits)
qed

lemma style_paragraphs_keeps:
  "map par_text (snd (style_paragraphs d f z ps)) = map par_text ps \<and>
   map par_level (snd (style_paragraphs d f z ps)) = map par_level ps"
proof (induction ps)
  case Nil
  show ?case by simp
next
  case (Cons p ps)
  have "map run_text (snd (style_runs d f z (par_runs p))) = map run_text (par_runs p)"
    by (rule style_runs_text)
  with Cons show ?case
    by (auto simp: par_text_def split: prod.splits option.splits)
qed

lemma apply_font_styling_keeps:
  "map par_text (apply_font_styling d tf t) = map par_text tf \<and>
   map par_level (apply_font_styling d tf t) = map par_level tf"
  by (auto simp: apply_font_styling_def style_paragraphs_keeps split: sum.splits json.splits)

lemma par_text_runs_of: "par_text \<lparr>par_runs = runs_of s, par_level = n\<rparr> = s"
  by (simp add: par_text_def runs_of_def)


lemma bullet_loop_rest:
  assumes "\<forall>item \<in> set items. \<exists>t. process_text_with_jinja E (JStr (py_str E item)) data = Inr t"
  shows "\<exists>ps. bullet_loop E data False items tf = (None, tf @ ps) \<and>
              list_all2 (item_par E data) items ps"
  using assms
proof (induction items arbitrary: tf)
  case Nil
  show ?case by simp
next
  case (Cons item items)
  from Cons.prems obtain t
    where t: "process_text_with_jinja E (JStr (py_str E item)) data = Inr t"
    by auto
  from Cons.prems have "\<forall>item \<in> set items.
      \<exists>t. process_text_with_jinja E (JStr (py_str E item)) data = Inr t"
    by simp
  from Cons.IH [OF this, of "add_paragraph t 0 tf"]
  obtain ps where ps: "bullet_loop E data False items (add_paragraph t 0 tf)
      = (None, add_paragraph t 0 tf @ ps)"
    and all: "list_all2 (item_par E data) items ps"
    by blast
  have "item_par E data item \<lparr>par_runs = runs_of t, par_level = 0\<rparr>"
    by (simp add: item_par_def t par_text_runs_of)
  with ps all show ?case
    by (intro exI [of _ "\<lparr>par_runs = runs_of t, par_level = 0\<rparr> # ps"])
       (simp add: t add_paragraph_def)
qed

lemma bullet_loop_first:
  assumes "\<forall>item \<in> set items. \<exists>t. process_text_with_jinja E (JStr (py_str E item)) data = Inr t"
    and "items \<noteq> []"
  shows "\<exists>ps. bullet_loop E data True items tf = (None, ps) \<and>
              list_all2 (item_par E data) items ps"
proof -
  from assms(2) obtain item rest where items: "items = item # rest"
    by (cases items) auto
  from assms(1) obtain t
    where t: "process_text_with_jinja E (JStr (py_str E item)) data = Inr t"
    unfolding items by auto
  from assms(1) have "\<forall>item \<in> set rest.
      \<exists>t. process_text_with_jinja E (JStr (py_str E item)) data = Inr t"
    unfolding items by simp
  from bullet_loop_rest [OF this, of "set_text t"]
  obtain ps where ps: "bullet_loop E data False rest (set_text t) = (None, set_text t @ ps)"
    and all: "list_all2 (item_par E data) rest ps"
    by blast
  have "item_par E data item \<lparr>par_runs = runs_of t, par_level = 0\<rparr>"
    by (simp add: item_par_def t par_text_runs_of)
  with ps all show ?thesis
    unfolding items by (simp add: t set_text_def)
qed

lemma list_all2_item_par_keeps:
  assumes "list_all2 (item_par E data) items ps"
    and "map par_text qs = map par_text ps" and "map par_level qs = map par_level ps"
  shows "list_all2 (item_par E data) items qs"
proof -
  from assms(2) have len: "length qs = length ps"
    by (rule map_eq_imp_length_eq)
  have "item_par E data (items ! k) (qs ! k)" if "k < length items" for k
  proof -
    from assms(1) that have "item_par E data (items ! k) (ps ! k)" and k: "k < length ps"
      by (auto simp: list_all2_conv_all_nth)
    moreover from assms(2,3) len k have "par_text (qs ! k) = par_text (ps ! k)"
      and "par_level (qs ! k) = par_level (ps ! k)"
      by (metis nth_map)+
    ultimately show ?thesis by (simp add: item_par_def)
  qed
  with assms(1) len show ?thesis
    by (simp add: list_all2_conv_all_nth)
qed

lemma ph_position_Some:
  "ph_position k ps = Some i \<Longrightarrow> i < length ps \<and> ph_idx (ps ! i) = k"
  by (induction ps arbitrary: i) (auto split: if_splits)

lemma ph_position_update:
  "j < length ps \<Longrightarrow> ph_idx q = ph_idx (ps ! j) \<Longrightarrow> ph_position k (ps[j := q]) = ph_position k ps"
proof (induction ps arbitrary: j)
  case Nil
  then show ?case by simp
next
  case (Cons p ps)
  then show ?case by (cases j) auto
qed

lemma style_background_placeholders:
  "slide_placeholders (style_background d s) = slide_placeholders s"
  by (simp add: style_background_def split: sum.splits)

lemma fill_title_keeps:
  assumes "fill_title E d slide_data data s = Inr s1"
    and "ph_position 1 (slide_placeholders s) = Some i"
  shows "ph_position 1 (slide_placeholders s1) = Some i \<and>
         slide_placeholders s1 ! i = slide_placeholders s ! i"
proof (cases "ph_position 0 (slide_placeholders s)")
  case None
  with assms show ?thesis by (simp add: fill_title_def)
next
  case (Some j)
  from ph_position_Some [OF Some] have j: "j < length (slide_placeholders s)"
    and j0: "ph_idx (slide_placeholders s ! j) = 0"
    by simp_all
  from ph_position_Some [OF assms(2)] have i1: "ph_idx (slide_placeholders s ! i) = 1"
    by simp
  from j0 i1 have ne: "j \<noteq> i" by auto
  from assms(1) Some obtain t where
    s1': "s1 = s\<lparr>slide_placeholders := (slide_placeholders s)
             [j := (slide_placeholders s ! j)
                \<lparr>text_frame := apply_font_styling d (set_text t) ''heading''\<rparr>]\<rparr>"
    by (auto simp: fill_title_def and_then_def set_shape_text_def
        split: sum.splits if_splits option.splits)
  define p where "p = (slide_placeholders s ! j)
                \<lparr>text_frame := apply_font_styling d (set_text t) ''heading''\<rparr>"
  have p: "ph_idx p = ph_idx (slide_placeholders s ! j)"
    by (simp add: p_def)
  have s1: "slide_placeholders s1 = (slide_placeholders s)[j := p]"
    by (simp add: s1' p_def)
  from ph_position_update [OF j p, of 1] assms(2) ne show ?thesis
    by (simp add: s1)
qed

lemma fill_title_succeeds:
  assumes "py_get slide_data ''title'' (JStr ''Slide Title'') = Inr title_text"
    and "process_text_with_jinja E title_text data = Inr t"
    and "\<forall>j. ph_position 0 (slide_placeholders s) = Some j \<longrightarrow>
           has_text_frame (slide_placeholders s ! j)"
  shows "\<exists>s1. fill_title E d slide_data data s = Inr s1"
  using assms
  by (cases "ph_position 0 (slide_placeholders s)")
     (simp_all add: fill_title_def set_shape_text_def)

lemma fill_content_bullets:
  assumes pos: "ph_position 1 (slide_placeholders s) = Some i"
    and tf: "has_text_frame (slide_placeholders s ! i)"
    and content: "py_get slide_data ''content'' (JList []) = Inr (JList items)"
    and ne: "items \<noteq> []"
    and ok: "\<forall>item \<in> set items.
               \<exists>t. process_text_with_jinja E (JStr (py_str E item)) data = Inr t"
  shows "\<exists>s2. fill_content E d slide_data data s = (None, s2) \<and>
           ph_position 1 (slide_placeholders s2) = Some i \<and>
           list_all2 (item_par E data) items (text_frame (slide_placeholders s2 ! i))"
proof -
  let ?p = "slide_placeholders s ! i"
  from bullet_loop_first [OF ok ne, of "clear_text (text_frame ?p)"]
  obtain ps where loop: "bullet_loop E data True items (clear_text (text_frame ?p)) = (None, ps)"
    and all: "list_all2 (item_par E data) items ps"
    by blast
  let ?q = "?p\<lparr>text_frame := apply_font_styling d ps ''body''\<rparr>"
  let ?s2 = "s\<lparr>slide_placeholders := (slide_placeholders s)[i := ?q]\<rparr>"
  from ph_position_Some [OF pos] have i: "i < length (slide_placeholders s)"
    by simp
  have run: "fill_content E d slide_data data s = (None, ?s2)"
    using pos content tf loop by (simp add: fill_content_def)
  have "ph_position 1 (slide_placeholders ?s2) = Some i"
    using ph_position_update [OF i, of ?q 1] pos by simp
  moreover have "list_all2 (item_par E data) items (text_frame (slide_placeholders ?s2 ! i))"
    using list_all2_item_par_keeps [OF all] apply_font_styling_keeps [of d ps "''body''"] i
    by simp
  ultimately show ?thesis using run by blast
qed

text \<open>
  \<^bold>\<open>C7.\<close> In \<^verbatim>\<open>create_enhanced_content_slide\<close>, for every non-empty list given as the
  slide's content, on a layout that has the content placeholder and when the engine renders
  the title and every item, the content placeholder of the new slide ends up with exactly
  one paragraph per item, in the order of the list: the first item has replaced the text
  the placeholder had, each later item is an appended paragraph, every paragraph holds its
  rendered item and has indentation level 0.
\<close>

theorem bullet_items_in_order:
  assumes "1 < length (slide_layouts prs)"
    and "ph_position 1 (layout_placeholders (slide_layouts prs ! 1)) = Some i"
    and "\<forall>p \<in> set (layout_placeholders (slide_layouts prs ! 1)). has_text_frame p"
    and "slide_data = JDict kvs" and "map_of kvs ''content'' = Some (JList items)"
    and "items \<noteq> []"
    and "\<exists>t. process_text_with_jinja E
               (case map_of kvs ''title'' of None \<Rightarrow> JStr ''Slide Title'' | Some v \<Rightarrow> v) data
             = Inr t"
    and "\<forall>item \<in> set items.
           \<exists>t. process_text_with_jinja E (JStr (py_str E item)) data = Inr t"
  shows "\<exists>s. create_enhanced_content_slide E design_config prs slide_data data =
               Inr (prs\<lparr>slides := slides prs @ [s]\<rparr>) \<and>
             ph_position 1 (slide_placeholders s) = Some i \<and>
             list_all2
               (\<lambda>item p. process_text_with_jinja E (JStr (py_str E item)) data
                             = Inr (par_text p) \<and> par_level p = 0)
               items (text_frame (slide_placeholders s ! i))"
proof -
  let ?l = "slide_layouts prs ! 1"
  let ?s0 = "style_background design_config (new_slide ?l)"
  let ?prs1 = "add_slide prs ?s0"
  have ph0: "slide_placeholders ?s0 = layout_placeholders ?l"
    by (simp add: style_background_placeholders new_slide_def)
  have styled: "create_styled_slide design_config prs 1 = Inr ?prs1"
    using assms(1) by (simp add: create_styled_slide_def py_index_def)
  have last: "last (slides ?prs1) = ?s0" and but: "butlast (slides ?prs1) = slides prs"
    by (simp_all add: add_slide_def)
  have pos0: "ph_position 1 (slide_placeholders ?s0) = Some i"
    using assms(2) ph0 by simp
  have frames: "has_text_frame (slide_placeholders ?s0 ! j)"
    if "j < length (slide_placeholders ?s0)" for j
    using assms(3) that unfolding ph0 by simp
  have tframe: "\<forall>j. ph_position 0 (slide_placeholders ?s0) = Some j \<longrightarrow>
      has_text_frame (slide_placeholders ?s0 ! j)"
    using frames ph_position_Some by blast
  from assms(7) obtain t where t: "process_text_with_jinja E
      (case map_of kvs ''title'' of None \<Rightarrow> JStr ''Slide Title'' | Some v \<Rightarrow> v) data = Inr t"
    by blast
  have get_title: "py_get slide_data ''title'' (JStr ''Slide Title'') =
      Inr (case map_of kvs ''title'' of None \<Rightarrow> JStr ''Slide Title'' | Some v \<Rightarrow> v)"
    by (simp add: assms(4))
  from fill_title_succeeds [OF get_title t tframe]
  obtain s1 where s1: "fill_title E design_config slide_data data ?s0 = Inr s1"
    by blast
  from fill_title_keeps [OF s1 pos0]
  have pos1: "ph_position 1 (slide_placeholders s1) = Some i"
    and same: "slide_placeholders s1 ! i = slide_placeholders ?s0 ! i"
    by simp_all
  from ph_position_Some [OF pos0] have "i < length (slide_placeholders ?s0)"
    by simp
  with frames same have tf1: "has_text_frame (slide_placeholders s1 ! i)"
    by simp
  have content: "py_get slide_data ''content'' (JList []) = Inr (JList items)"
    by (simp add: assms(4,5))
  from fill_content_bullets [OF pos1 tf1 content assms(6) assms(8)]
  obtain s2 where s2: "fill_content E design_config slide_data data s1 = (None, s2)"
    and pos2: "ph_position 1 (slide_placeholders s2) = Some i"
    and all: "list_all2 (item_par E data) items (text_frame (slide_placeholders s2 ! i))"
    by blast
  have "create_enhanced_content_slide E design_config prs slide_data data =
      Inr (?prs1\<lparr>slides := butlast (slides ?prs1) @ [s2]\<rparr>)"
    unfolding create_enhanced_content_slide_def styled and_then_Inr last s1 s2 by simp
  then have "create_enhanced_content_slide E design_config prs slide_data data =
      Inr (prs\<lparr>slides := slides prs @ [s2]\<rparr>)"
    unfolding but by (simp add: add_slide_def)
  moreover have "item_par E data =
      (\<lambda>item p. process_text_with_jinja E (JStr (py_str E item)) data = Inr (par_text p) \<and>
         par_level p = 0)"
    by (simp add: item_par_def fun_eq_iff)
  ultimately show ?thesis
    using pos2 all by (intro exI [of _ s2]) simp
qed

theorem bullet_items_in_order_witness:
  "\<exists>s. create_enhanced_content_slide engines_example (JDict []) template_example
            bullets_example (JDict [])
          = Inr (template_example\<lparr>slides := slides template_example @ [s]\<rparr>) \<and>
       map par_text (text_frame (slide_placeholders s ! 1)) = [''zeta'', ''alpha'', ''mid''] \<and>
       map par_level (text_frame (slide_placeholders s ! 1)) = [0, 0, 0]"
proof -
  let ?kvs = "[(''title'', JStr ''Benefits''),
               (''content'', JList [JStr ''zeta'', JStr ''alpha'', JStr ''mid''])]"
  let ?items = "[JStr ''zeta'', JStr ''alpha'', JStr ''mid'']"
  have proc: "process_text_with_jinja engines_example (JStr x) (JDict []) = Inr x"
    if "x \<noteq> ''blank_slide.xml''" for x
    using that by (simp add: process_text_with_jinja_def engines_example_def)
  have 1: "1 < length (slide_layouts template_example)"
    by (simp add: template_example_def)
  have 2: "ph_position 1 (layout_placeholders (slide_layouts template_example ! 1)) = Some 1"
    by (simp add: template_example_def title_ph_def body_ph_def)
  have 3: "\<forall>p \<in> set (layout_placeholders (slide_layouts template_example ! 1)).
      has_text_frame p"
    by (simp add: template_example_def title_ph_def body_ph_def)
  have 4: "bullets_example = JDict ?kvs"
    by (simp add: bullets_example_def)
  have 5: "map_of ?kvs ''content'' = Some (JList ?items)"
    by simp
  have 6: "?items \<noteq> []"
    by simp
  have 7: "\<exists>t. process_text_with_jinja engines_example
      (case map_of ?kvs ''title'' of None \<Rightarrow> JStr ''Slide Title'' | Some v \<Rightarrow> v) (JDict [])
      = Inr t"
    by (simp add: proc)
  have 8: "\<forall>item \<in> set ?items.
      \<exists>t. process_text_with_jinja engines_example (JStr (py_str engines_example item))
             (JDict []) = Inr t"
    by (simp add: proc)
  from bullet_items_in_order [OF 1 2 3 4 5 6 7 8, of "JDict []"]
  obtain s where run: "create_enhanced_content_slide engines_example (JDict []) template_example
        bullets_example (JDict [])
      = Inr (template_example\<lparr>slides := slides template_example @ [s]\<rparr>)"
    and all: "list_all2
       (\<lambda>item p. process_text_with_jinja engines_example (JStr (py_str engines_example item))
                    (JDict []) = Inr (par_text p) \<and> par_level p = 0)
       ?items (text_frame (slide_placeholders s ! 1))"
    by blast
  from all have "map par_text (text_frame (slide_placeholders s ! 1)) = [''zeta'', ''alpha'', ''mid'']"
    and "map par_level (text_frame (slide_placeholders s ! 1)) = [0, 0, 0]"
    by (auto simp: list_all2_Cons1 proc)
  with run show ?thesis by (intro exI [of _ s] conjI)
qed

end
